theory Spec2Isabelle
  imports Complex_Main "HOL-Library.AList"
begin

section \<open>Data model of the ambient sound mixer\<close>

text \<open>
  The program is one class, \<open>AmbientSoundMixer\<close>, whose methods mutate the object and
  call the audio library and the GUI toolkit. The model passes the whole state
  explicitly. Python dictionaries are association lists in insertion order (their keys
  are distinct in Python; a theorem that depends on it says so). A character is a code
  point below 256.

  A Python number is a real, one of the two infinities, or NaN, as \<open>json.load\<close> reads
  them and \<open>json.dump\<close> writes them; the rounding of floats is not modelled. The only
  arithmetic the program does on numbers is the division of a slider value by 100.

  The effects dictionaries are the one kind of object that the program both shares and
  mutates in place, so they live in an explicit store: a sound and a saved preset hold the
  address of a dictionary, \<open>.copy()\<close> allocates a new address.
\<close>

type_synonym addr = nat

datatype number = Finite real | Infinity | Minus_Infinity | NaN

type_synonym effects_dict = "(string \<times> number) list"

record sound =
  filename :: string
  volume :: number
  channel :: "nat option"
  is_playing :: bool
  effects :: addr
  button :: "string option"

text \<open>
  The field \<open>channel\<close> is a reference to one of the audio library's channels (its index);
  \<open>button\<close> is the Play/Stop button of the slot, modelled by its label.

  An entry of \<open>Preset.settings\<close> is the dictionary with the keys \<open>volume\<close>,
  \<open>is_playing\<close> and \<open>effects\<close> that \<open>save_preset\<close> builds. The type parameter is the
  representation of the effects dictionary: an address for a preset in memory, the
  dictionary itself when presets are compared by value.
\<close>

record 'e sound_settings =
  setting_volume :: number
  setting_is_playing :: bool
  setting_effects :: 'e

record 'e preset =
  name :: string
  settings :: "(string \<times> 'e sound_settings) list"
  category :: string
  tags :: "string list"
  created_at :: string

datatype json =
    JNull
  | JBool bool
  | JNumber number
  | JString string
  | JArray "json list"
  | JObject "(string \<times> json) list"

text \<open>
  The presets file, by what it holds: it is absent, or its bytes are not text in the
  encoding that \<open>open\<close> uses, or its text is not a JSON document, or its text is the JSON
  document given. The text layer of the json library is not modelled beyond this:
  \<open>json.dump\<close> writes the document of a value and \<open>json.load\<close> reads a document as the
  value it denotes. Writing the file is taken to succeed.
\<close>

datatype presets_file = No_file | Undecodable | Not_json | Document json

datatype audio_file = Absent | Corrupt | Playable

datatype exn =
    KeyError string
  | FileNotFoundError string
  | PygameError string
  | AttributeError
  | TypeError
  | IllTyped
  | UnicodeDecodeError
  | JSONDecodeError

datatype dialog =
    ShowWarning string string
  | ShowInfo string string
  | ShowError string string exn

text \<open>
  \<open>ShowError title prefix e\<close> is the error box whose message is \<open>prefix\<close> followed by
  \<open>str(e)\<close>. A channel of the audio library records what it was last told: the sound it
  plays with its loop count (\<open>None\<close> when idle) and its volume.
\<close>

record mixer_channel =
  playing :: "(string \<times> int) option"
  chan_volume :: number

record mixer =
  sounds :: "(string \<times> sound) list"
  presets :: "(string \<times> addr preset) list"
  heap :: "addr \<Rightarrow> effects_dict"
  next_addr :: addr
  channels :: "mixer_channel list"
  sound_files :: "string \<Rightarrow> audio_file"
  presets_file :: presets_file
  dialogs :: "dialog list"
  error_log :: "(string \<times> exn) list"
  preset_name_var :: string
  category_var :: string
  tags_var :: string
  preset_var :: string
  preset_combo :: "string list"

section \<open>The audio library as the program uses it\<close>

text \<open>\<open>pygame.mixer.Sound(filename)\<close>: the sound object, or the exception raised.\<close>

definition mixer_Sound :: "mixer \<Rightarrow> string \<Rightarrow> exn + string" where
  "mixer_Sound s f =
     (case sound_files s f of
        Absent \<Rightarrow> Inl (FileNotFoundError f)
      | Corrupt \<Rightarrow> Inl (PygameError f)
      | Playable \<Rightarrow> Inr f)"

text \<open>\<open>pygame.mixer.find_channel()\<close>: the first idle channel, \<open>None\<close> when all are busy.\<close>

fun find_channel :: "mixer_channel list \<Rightarrow> nat option" where
  "find_channel [] = None"
| "find_channel (c # cs) =
     (if playing c = None then Some 0 else map_option Suc (find_channel cs))"

definition channel_play :: "nat \<Rightarrow> string \<Rightarrow> int \<Rightarrow> mixer_channel list \<Rightarrow> mixer_channel list" where
  "channel_play c sound_obj loops cs = cs[c := (cs ! c)\<lparr>playing := Some (sound_obj, loops)\<rparr>]"

definition channel_set_volume :: "nat \<Rightarrow> number \<Rightarrow> mixer_channel list \<Rightarrow> mixer_channel list" where
  "channel_set_volume c v cs = cs[c := (cs ! c)\<lparr>chan_volume := v\<rparr>]"

definition channel_stop :: "nat \<Rightarrow> mixer_channel list \<Rightarrow> mixer_channel list" where
  "channel_stop c cs = cs[c := (cs ! c)\<lparr>playing := None\<rparr>]"

section \<open>Playback\<close>

definition show_dialog :: "dialog \<Rightarrow> mixer \<Rightarrow> mixer" where
  "show_dialog d s = s\<lparr>dialogs := dialogs s @ [d]\<rparr>"

definition modify_sound :: "string \<Rightarrow> (sound \<Rightarrow> sound) \<Rightarrow> mixer \<Rightarrow> mixer" where
  "modify_sound n f s = s\<lparr>sounds := AList.map_entry n f (sounds s)\<rparr>"

text \<open>
  \<open>play_sound\<close>: the whole body is inside \<open>try\<close>, and every exception ends in the
  error box. The button is configured last, after the slot has been marked as playing.
\<close>

definition play_sound :: "string \<Rightarrow> mixer \<Rightarrow> mixer" where
  "play_sound sound_name s =
     (let playback_error = (\<lambda>e. ShowError ''Playback Error'' (''Error playing '' @ sound_name @ '': '') e)
      in case map_of (sounds s) sound_name of
        None \<Rightarrow> show_dialog (playback_error (KeyError sound_name)) s
      | Some sound \<Rightarrow>
         (case mixer_Sound s (filename sound) of
            Inl e \<Rightarrow> show_dialog (playback_error e) s
          | Inr sound_obj \<Rightarrow>
             (case find_channel (channels s) of
                None \<Rightarrow> show_dialog (ShowWarning ''Warning'' ''No available audio channels'') s
              | Some c \<Rightarrow>
                 (let s1 = s\<lparr>channels := channel_set_volume c (volume sound)
                                            (channel_play c sound_obj (- 1) (channels s))\<rparr>;
                      s2 = modify_sound sound_name (\<lambda>x. x\<lparr>channel := Some c, is_playing := True\<rparr>) s1
                  in case button sound of
                       None \<Rightarrow> show_dialog (playback_error AttributeError) s2
                     | Some _ \<Rightarrow> modify_sound sound_name (\<lambda>x. x\<lparr>button := Some ''Stop''\<rparr>) s2))))"

text \<open>\<open>stop_sound\<close>: every exception is caught and logged.\<close>

definition stop_sound :: "string \<Rightarrow> mixer \<Rightarrow> mixer" where
  "stop_sound sound_name s =
     (let stop_error = (\<lambda>e. (''Error stopping '' @ sound_name @ '': '', e))
      in case map_of (sounds s) sound_name of
        None \<Rightarrow> s\<lparr>error_log := error_log s @ [stop_error (KeyError sound_name)]\<rparr>
      | Some sound \<Rightarrow>
         (let s1 = (case channel sound of
                      Some c \<Rightarrow> s\<lparr>channels := channel_stop c (channels s)\<rparr>
                    | None \<Rightarrow> s);
              s2 = modify_sound sound_name (\<lambda>x. x\<lparr>is_playing := False\<rparr>) s1
          in case button sound of
               None \<Rightarrow> s2\<lparr>error_log := error_log s2 @ [stop_error AttributeError]\<rparr>
             | Some _ \<Rightarrow> modify_sound sound_name (\<lambda>x. x\<lparr>button := Some ''Play''\<rparr>) s2))"

text \<open>
  The three callbacks below look the slot up outside any \<open>try\<close>: an unknown name raises
  \<open>KeyError\<close> before anything is changed.
\<close>

definition toggle_sound :: "string \<Rightarrow> mixer \<Rightarrow> exn + mixer" where
  "toggle_sound sound_name s =
     (case map_of (sounds s) sound_name of
        None \<Rightarrow> Inl (KeyError sound_name)
      | Some sound \<Rightarrow>
          Inr (if is_playing sound then stop_sound sound_name s else play_sound sound_name s))"

definition update_effect :: "string \<Rightarrow> string \<Rightarrow> number \<Rightarrow> mixer \<Rightarrow> exn + mixer" where
  "update_effect sound_name effect val s =
     (case map_of (sounds s) sound_name of
        None \<Rightarrow> Inl (KeyError sound_name)
      | Some sound \<Rightarrow>
         (let s1 = s\<lparr>heap := (heap s)(effects sound := AList.update effect val (heap s (effects sound)))\<rparr>
          in Inr (if is_playing sound
                  then play_sound sound_name (stop_sound sound_name s1)
                  else s1)))"

text \<open>\<open>value / 100\<close> on a Python float.\<close>

fun div100 :: "number \<Rightarrow> number" where
  "div100 (Finite x) = Finite (x / 100)"
| "div100 Infinity = Infinity"
| "div100 Minus_Infinity = Minus_Infinity"
| "div100 NaN = NaN"

definition on_volume_change :: "string \<Rightarrow> number \<Rightarrow> mixer \<Rightarrow> exn + mixer" where
  "on_volume_change sound_name val s =
     (case map_of (sounds s) sound_name of
        None \<Rightarrow> Inl (KeyError sound_name)
      | Some sound \<Rightarrow>
         (let s1 = modify_sound sound_name (\<lambda>x. x\<lparr>volume := div100 val\<rparr>) s
          in Inr (case channel sound of
                    Some c \<Rightarrow> s1\<lparr>channels := channel_set_volume c (div100 val) (channels s1)\<rparr>
                  | None \<Rightarrow> s1)))"

section \<open>Presets in memory\<close>

text \<open>\<open>d.copy()\<close> of the dictionary at address \<open>a\<close>: a new dictionary with the same items.\<close>

definition dict_copy :: "addr \<Rightarrow> mixer \<Rightarrow> addr \<times> mixer" where
  "dict_copy a s =
     (next_addr s, s\<lparr>heap := (heap s)(next_addr s := heap s a), next_addr := Suc (next_addr s)\<rparr>)"

text \<open>A dictionary literal: a new dictionary with the given items.\<close>

definition dict_new :: "effects_dict \<Rightarrow> mixer \<Rightarrow> addr \<times> mixer" where
  "dict_new d s =
     (next_addr s, s\<lparr>heap := (heap s)(next_addr s := d), next_addr := Suc (next_addr s)\<rparr>)"

text \<open>The dictionary comprehension that builds \<open>preset_data\<close> in \<open>save_preset\<close>, over
  \<open>self.sounds.items()\<close>.\<close>

fun snapshot :: "(string \<times> sound) list \<Rightarrow> mixer \<Rightarrow> (string \<times> addr sound_settings) list \<times> mixer" where
  "snapshot [] s = ([], s)"
| "snapshot ((sound_name, sound) # rest) s =
     (let (a, s1) = dict_copy (effects sound) s;
          (entries, s2) = snapshot rest s1
      in ((sound_name,
           \<lparr>setting_volume = volume sound,
            setting_is_playing = is_playing sound,
            setting_effects = a\<rparr>) # entries, s2))"

text \<open>
  \<open>str.split(',')\<close> and \<open>str.strip()\<close>. The whitespace that \<open>strip\<close> removes is what
  \<open>str.isspace\<close> accepts; among the code points below 256 these are 9 to 13, 28 to 32,
  133 and 160.
\<close>

fun split_comma :: "string \<Rightarrow> string list" where
  "split_comma [] = [[]]"
| "split_comma (c # cs) =
     (if c = CHR '','' then [] # split_comma cs
      else (case split_comma cs of
              w # ws \<Rightarrow> (c # w) # ws
            | [] \<Rightarrow> [[c]]))"

definition is_space :: "char \<Rightarrow> bool" where
  "is_space c = ((of_char c :: nat) \<in> {9, 10, 11, 12, 13, 28, 29, 30, 31, 32, 133, 160})"

definition strip :: "string \<Rightarrow> string" where
  "strip w = rev (dropWhile is_space (rev (dropWhile is_space w)))"

definition parse_tags :: "string \<Rightarrow> string list" where
  "parse_tags text = map strip (filter (\<lambda>tag. strip tag \<noteq> []) (split_comma text))"

section \<open>The presets file\<close>

text \<open>
  What \<open>json.dump\<close> writes for \<open>{name: preset.__dict__ ...}\<close>: the dataclass's
  \<open>__dict__\<close> has the five fields in the order of their declaration, and the effects
  dictionaries are written with the items they hold at that moment.
\<close>

definition effects_json :: "effects_dict \<Rightarrow> json" where
  "effects_json d = JObject (map (\<lambda>(k, v). (k, JNumber v)) d)"

definition setting_json :: "(addr \<Rightarrow> effects_dict) \<Rightarrow> addr sound_settings \<Rightarrow> json" where
  "setting_json h st =
     JObject [(''volume'', JNumber (setting_volume st)),
              (''is_playing'', JBool (setting_is_playing st)),
              (''effects'', effects_json (h (setting_effects st)))]"

definition preset_dict :: "(addr \<Rightarrow> effects_dict) \<Rightarrow> addr preset \<Rightarrow> (string \<times> json) list" where
  "preset_dict h p =
     [(''name'', JString (name p)),
      (''settings'', JObject (map (\<lambda>(sound_name, st). (sound_name, setting_json h st)) (settings p))),
      (''category'', JString (category p)),
      (''tags'', JArray (map JString (tags p))),
      (''created_at'', JString (created_at p))]"

definition save_presets_to_file :: "mixer \<Rightarrow> mixer" where
  "save_presets_to_file s =
     s\<lparr>presets_file :=
          Document (JObject (map (\<lambda>(n, p). (n, JObject (preset_dict (heap s) p))) (presets s)))\<rparr>"

definition update_preset_list :: "mixer \<Rightarrow> mixer" where
  "update_preset_list s = s\<lparr>preset_combo := map fst (presets s)\<rparr>"

text \<open>
  Reading the file back. \<open>Preset(**preset_data)\<close> raises \<open>TypeError\<close> unless
  \<open>preset_data\<close> is an object with exactly the five field names as keys
  (\<open>Preset_accepts\<close>); that is all the constructor checks, and Python stores the field
  values as they are. The presets in memory of this model have the declared field types
  and settings of the shape that \<open>save_preset\<close> builds. A document with values of another
  shape therefore has no counterpart in memory here: for it \<open>Preset\<close> gives \<open>IllTyped\<close>,
  which is not an exception of the program but the mark that the run leaves the model.
  The dictionaries that \<open>json.load\<close> builds are new objects in the store.
\<close>

definition json_string :: "json \<Rightarrow> string option" where
  "json_string j = (case j of JString w \<Rightarrow> Some w | _ \<Rightarrow> None)"

definition json_number :: "json \<Rightarrow> number option" where
  "json_number j = (case j of JNumber x \<Rightarrow> Some x | _ \<Rightarrow> None)"

definition json_bool :: "json \<Rightarrow> bool option" where
  "json_bool j = (case j of JBool b \<Rightarrow> Some b | _ \<Rightarrow> None)"

fun all_some :: "'a option list \<Rightarrow> 'a list option" where
  "all_some [] = Some []"
| "all_some (None # _) = None"
| "all_some (Some x # xs) = map_option ((#) x) (all_some xs)"

definition json_items :: "(json \<Rightarrow> 'a option) \<Rightarrow> json \<Rightarrow> (string \<times> 'a) list option" where
  "json_items f j =
     (case j of
        JObject kvs \<Rightarrow> all_some (map (\<lambda>(k, v). map_option (Pair k) (f v)) kvs)
      | _ \<Rightarrow> None)"

definition json_strings :: "json \<Rightarrow> string list option" where
  "json_strings j = (case j of JArray js \<Rightarrow> all_some (map json_string js) | _ \<Rightarrow> None)"

definition json_setting :: "json \<Rightarrow> effects_dict sound_settings option" where
  "json_setting j =
     (case j of
        JObject fs \<Rightarrow>
          (if set (map fst fs) = {''volume'', ''is_playing'', ''effects''}
           then (case (Option.bind (map_of fs ''volume'') json_number,
                       Option.bind (map_of fs ''is_playing'') json_bool,
                       Option.bind (map_of fs ''effects'') (json_items json_number)) of
                   (Some v, Some b, Some d) \<Rightarrow>
                     Some \<lparr>setting_volume = v, setting_is_playing = b, setting_effects = d\<rparr>
                 | _ \<Rightarrow> None)
           else None)
      | _ \<Rightarrow> None)"

definition field_names :: "string list" where
  "field_names = [''name'', ''settings'', ''category'', ''tags'', ''created_at'']"

definition Preset_accepts :: "json \<Rightarrow> bool" where
  "Preset_accepts preset_data =
     (case preset_data of
        JObject fs \<Rightarrow> set (map fst fs) = set field_names
      | _ \<Rightarrow> False)"

definition read_fields :: "(string \<times> json) list \<Rightarrow> effects_dict preset option" where
  "read_fields fs =
     (case (Option.bind (map_of fs ''name'') json_string,
            Option.bind (map_of fs ''settings'') (json_items json_setting),
            Option.bind (map_of fs ''category'') json_string,
            Option.bind (map_of fs ''tags'') json_strings,
            Option.bind (map_of fs ''created_at'') json_string) of
        (Some n, Some st, Some c, Some ts, Some t) \<Rightarrow>
          Some \<lparr>name = n, settings = st, category = c, tags = ts, created_at = t\<rparr>
      | _ \<Rightarrow> None)"

definition Preset :: "json \<Rightarrow> exn + effects_dict preset" where
  "Preset preset_data =
     (if \<not> Preset_accepts preset_data then Inl TypeError
      else (case preset_data of
              JObject fs \<Rightarrow>
                (case read_fields fs of
                   Some p \<Rightarrow> Inr p
                 | None \<Rightarrow> Inl IllTyped)
            | _ \<Rightarrow> Inl TypeError))"

fun store_settings ::
  "(string \<times> effects_dict sound_settings) list \<Rightarrow> mixer \<Rightarrow> (string \<times> addr sound_settings) list \<times> mixer" where
  "store_settings [] s = ([], s)"
| "store_settings ((sound_name, st) # rest) s =
     (let (a, s1) = dict_new (setting_effects st) s;
          (entries, s2) = store_settings rest s1
      in ((sound_name,
           \<lparr>setting_volume = setting_volume st,
            setting_is_playing = setting_is_playing st,
            setting_effects = a\<rparr>) # entries, s2))"

definition store_preset :: "effects_dict preset \<Rightarrow> mixer \<Rightarrow> addr preset \<times> mixer" where
  "store_preset p s =
     (let (entries, s1) = store_settings (settings p) s
      in (\<lparr>name = name p, settings = entries, category = category p,
           tags = tags p, created_at = created_at p\<rparr>, s1))"

fun load_items :: "(string \<times> json) list \<Rightarrow> mixer \<Rightarrow> exn + ((string \<times> addr preset) list \<times> mixer)" where
  "load_items [] s = Inr ([], s)"
| "load_items ((n, preset_data) # rest) s =
     (case Preset preset_data of
        Inl e \<Rightarrow> Inl e
      | Inr p \<Rightarrow>
         (let (p', s1) = store_preset p s
          in case load_items rest s1 of
               Inl e \<Rightarrow> Inl e
             | Inr (ps, s2) \<Rightarrow> Inr ((n, p') # ps, s2)))"

text \<open>
  The body of the \<open>try\<close> in \<open>load_presets\<close>, in its three steps. \<open>open\<close> raises
  \<open>FileNotFoundError\<close> for an absent file. \<open>json.load\<close> reads the text, which raises
  \<open>UnicodeDecodeError\<close> when the bytes are not text, and parses it, which raises
  \<open>JSONDecodeError\<close> when the text is not a JSON document. The comprehension calls
  \<open>data.items()\<close>, which only an object has (\<open>AttributeError\<close>), and the constructor.
\<close>

definition open_and_load :: "mixer \<Rightarrow> exn + json" where
  "open_and_load s =
     (case presets_file s of
        No_file \<Rightarrow> Inl (FileNotFoundError ''presets.json'')
      | Undecodable \<Rightarrow> Inl UnicodeDecodeError
      | Not_json \<Rightarrow> Inl JSONDecodeError
      | Document data \<Rightarrow> Inr data)"

definition make_presets :: "json \<Rightarrow> mixer \<Rightarrow> exn + ((string \<times> addr preset) list \<times> mixer)" where
  "make_presets data s =
     (case data of
        JObject items \<Rightarrow> load_items items s
      | _ \<Rightarrow> Inl AttributeError)"

text \<open>The \<open>except\<close> clause names two exceptions; any other one propagates.\<close>

definition caught :: "exn \<Rightarrow> bool" where
  "caught e =
     (case e of
        FileNotFoundError _ \<Rightarrow> True
      | JSONDecodeError \<Rightarrow> True
      | _ \<Rightarrow> False)"

definition load_presets :: "mixer \<Rightarrow> exn + ((string \<times> addr preset) list \<times> mixer)" where
  "load_presets s =
     (case (case open_and_load s of
              Inl e \<Rightarrow> Inl e
            | Inr data \<Rightarrow> make_presets data s) of
        Inl e \<Rightarrow> (if caught e then Inr ([], s) else Inl e)
      | Inr r \<Rightarrow> Inr r)"

section \<open>Saving and applying a preset\<close>

text \<open>
  \<open>save_preset\<close> reads the entry fields of the window; \<open>now\<close> is
  \<open>datetime.now().isoformat()\<close>.
\<close>

definition save_preset :: "string \<Rightarrow> mixer \<Rightarrow> mixer" where
  "save_preset now s =
     (let n = preset_name_var s
      in if n = [] then show_dialog (ShowWarning ''Warning'' ''Please enter a preset name'') s
         else
          (let (entries, s1) = snapshot (sounds s) s;
               p = \<lparr>name = n, settings = entries, category = category_var s,
                    tags = parse_tags (tags_var s), created_at = now\<rparr>;
               s2 = s1\<lparr>presets := AList.update n p (presets s1)\<rparr>;
               s3 = update_preset_list (save_presets_to_file s2)
           in show_dialog
                (ShowInfo ''Success'' (''Preset '' @ [CHR 0x27] @ n @ [CHR 0x27] @ '' saved successfully''))
                s3))"

text \<open>One turn of the loop of \<open>load_preset\<close>.\<close>

definition apply_settings :: "string \<times> addr sound_settings \<Rightarrow> mixer \<Rightarrow> mixer" where
  "apply_settings entry s =
     (case entry of (sound_name, st) \<Rightarrow>
        (case map_of (sounds s) sound_name of
           None \<Rightarrow> s
         | Some _ \<Rightarrow>
            (let (a, s1) = dict_copy (setting_effects st) s;
                 s2 = modify_sound sound_name (\<lambda>x. x\<lparr>volume := setting_volume st, effects := a\<rparr>) s1
             in if setting_is_playing st
                then play_sound sound_name s2
                else stop_sound sound_name s2)))"

definition load_preset :: "mixer \<Rightarrow> mixer" where
  "load_preset s =
     (let preset_name = preset_var s
      in if preset_name = [] \<or> map_of (presets s) preset_name = None then s
         else (case map_of (presets s) preset_name of
                 None \<Rightarrow> s
               | Some p \<Rightarrow> fold apply_settings (settings p) s))"

section \<open>Start-up\<close>

text \<open>\<open>Sound(filename)\<close>: the defaults of the dataclass, and \<open>__post_init__\<close>.\<close>

definition new_Sound :: "string \<Rightarrow> mixer \<Rightarrow> sound \<times> mixer" where
  "new_Sound f s =
     (let (a, s1) = dict_new [(''reverb'', Finite 0), (''eq_low'', Finite 1),
                              (''eq_mid'', Finite 1), (''eq_high'', Finite 1)] s
      in (\<lparr>filename = f, volume = Finite 1, channel = None, is_playing = False, effects = a, button = None\<rparr>,
          s1))"

definition initialize_sounds :: "mixer \<Rightarrow> (string \<times> sound) list \<times> mixer" where
  "initialize_sounds s =
     (let (rain, s1) = new_Sound ''sounds/rain.mp3'' s;
          (coffee_shop, s2) = new_Sound ''sounds/coffee_shop.mp3'' s1;
          (white_noise, s3) = new_Sound ''sounds/white_noise.mp3'' s2;
          (forest, s4) = new_Sound ''sounds/forest.mp3'' s3;
          (ocean, s5) = new_Sound ''sounds/ocean.mp3'' s4
      in ([(''Rain'', rain), (''Coffee Shop'', coffee_shop), (''White Noise'', white_noise),
           (''Forest'', forest), (''Ocean'', ocean)], s5))"

definition load_sound :: "string \<times> sound \<Rightarrow> mixer \<Rightarrow> mixer" where
  "load_sound entry s =
     (case entry of (sound_name, sound) \<Rightarrow>
        (case sound_files s (filename sound) of
           Absent \<Rightarrow> show_dialog (ShowWarning ''File Missing'' (''Sound file not found: '' @ filename sound)) s
         | Corrupt \<Rightarrow> show_dialog (ShowError ''Loading Error'' (''Error loading '' @ sound_name @ '': '')
                                     (PygameError (filename sound))) s
         | Playable \<Rightarrow> s))"

definition load_sounds :: "mixer \<Rightarrow> mixer" where
  "load_sounds s = fold load_sound (sounds s) s"

text \<open>
  Of \<open>setup_ui\<close> the model keeps what the other methods read: every slot gets its button,
  labelled Play, the entry fields start empty, and the combo box lists the preset names.
\<close>

definition setup_ui :: "mixer \<Rightarrow> mixer" where
  "setup_ui s =
     s\<lparr>sounds := map (\<lambda>(sound_name, sound). (sound_name, sound\<lparr>button := Some ''Play''\<rparr>)) (sounds s),
       preset_name_var := [], category_var := [], tags_var := [], preset_var := [],
       preset_combo := map fst (presets s)\<rparr>"

text \<open>
  \<open>__init__\<close>. The environment is given: the number of channels of the audio library, the
  sound files and the presets file.
\<close>

definition init_mixer :: "nat \<Rightarrow> (string \<Rightarrow> audio_file) \<Rightarrow> presets_file \<Rightarrow> exn + mixer" where
  "init_mixer num_channels files file =
     (let s0 = \<lparr>sounds = [], presets = [], heap = (\<lambda>_. []), next_addr = 0,
                channels = replicate num_channels \<lparr>playing = None, chan_volume = Finite 1\<rparr>,
                sound_files = files, presets_file = file, dialogs = [], error_log = [],
                preset_name_var = [], category_var = [], tags_var = [], preset_var = [],
                preset_combo = []\<rparr>;
          (registry, s1) = initialize_sounds s0;
          s2 = load_sounds (s1\<lparr>sounds := registry\<rparr>)
      in case load_presets s2 of
           Inl e \<Rightarrow> Inl e
         | Inr (ps, s3) \<Rightarrow> Inr (setup_ui (s3\<lparr>presets := ps\<rparr>)))"

section \<open>Notions used to state the properties\<close>

text \<open>
  The value of a preset: Python compares presets field by field and dictionaries by their
  items, so two presets are equal when they are equal after every effects address has
  been replaced by the dictionary stored there.
\<close>

definition setting_value :: "(addr \<Rightarrow> effects_dict) \<Rightarrow> addr sound_settings \<Rightarrow> effects_dict sound_settings" where
  "setting_value h st =
     \<lparr>setting_volume = setting_volume st,
      setting_is_playing = setting_is_playing st,
      setting_effects = h (setting_effects st)\<rparr>"

definition preset_value :: "(addr \<Rightarrow> effects_dict) \<Rightarrow> addr preset \<Rightarrow> effects_dict preset" where
  "preset_value h p =
     \<lparr>name = name p,
      settings = map (\<lambda>(sound_name, st). (sound_name, setting_value h st)) (settings p),
      category = category p,
      tags = tags p,
      created_at = created_at p\<rparr>"


text \<open>
  The store is well formed when every dictionary that a sound or a preset refers to has
  been allocated: its address lies below the next free one.
\<close>

definition store_ok :: "mixer \<Rightarrow> bool" where
  "store_ok s =
     ((\<forall>sound \<in> snd ` set (sounds s). effects sound < next_addr s) \<and>
      (\<forall>p \<in> snd ` set (presets s). \<forall>st \<in> snd ` set (settings p). setting_effects st < next_addr s))"











text \<open>
  \<open>play_sound\<close> gets as far as starting playback when the sound file loads and a channel
  is idle.
\<close>

definition can_play :: "string \<Rightarrow> mixer \<Rightarrow> bool" where
  "can_play sound_name s =
     (case map_of (sounds s) sound_name of
        None \<Rightarrow> False
      | Some sound \<Rightarrow>
          sound_files s (filename sound) = Playable \<and> find_channel (channels s) \<noteq> None)"

text \<open>
  The state in which the window opens when the audio library has eight channels, the
  five sound files are present and there is no presets file (see \<open>init_mixer_quiet\<close>).
\<close>

definition quiet_mixer :: mixer where
  "quiet_mixer =
     \<lparr>sounds =
        [(''Rain'', \<lparr>filename = ''sounds/rain.mp3'', volume = Finite 1, channel = None,
                     is_playing = False, effects = 0, button = Some ''Play''\<rparr>),
         (''Coffee Shop'', \<lparr>filename = ''sounds/coffee_shop.mp3'', volume = Finite 1, channel = None,
                     is_playing = False, effects = 1, button = Some ''Play''\<rparr>),
         (''White Noise'', \<lparr>filename = ''sounds/white_noise.mp3'', volume = Finite 1, channel = None,
                     is_playing = False, effects = 2, button = Some ''Play''\<rparr>),
         (''Forest'', \<lparr>filename = ''sounds/forest.mp3'', volume = Finite 1, channel = None,
                     is_playing = False, effects = 3, button = Some ''Play''\<rparr>),
         (''Ocean'', \<lparr>filename = ''sounds/ocean.mp3'', volume = Finite 1, channel = None,
                     is_playing = False, effects = 4, button = Some ''Play''\<rparr>)],
      presets = [],
      heap = (\<lambda>a. if a < 5 then [(''reverb'', Finite 0), (''eq_low'', Finite 1), (''eq_mid'', Finite 1), (''eq_high'', Finite 1)]
                  else []),
      next_addr = 5,
      channels = replicate 8 \<lparr>playing = None, chan_volume = Finite 1\<rparr>,
      sound_files = (\<lambda>_. Playable), presets_file = No_file, dialogs = [], error_log = [],
      preset_name_var = [], category_var = [], tags_var = [], preset_var = [],
      preset_combo = []\<rparr>"

text \<open>
  A second start: the file \<open>sounds/forest.mp3\<close> is missing, and the presets file holds
  one preset, \<open>calm\<close>, which records Rain and Forest as playing and has an entry for a
  sound, Wind, that the registry does not have (see \<open>init_mixer_forest_missing\<close>).
\<close>

definition forest_absent :: "string \<Rightarrow> audio_file" where
  "forest_absent f = (if f = ''sounds/forest.mp3'' then Absent else Playable)"

definition calm_document :: json where
  "calm_document =
     JObject
      [(''calm'',
        JObject
         [(''name'', JString ''calm''),
          (''settings'',
           JObject
            [(''Wind'',
              JObject [(''volume'', JNumber (Finite 1)), (''is_playing'', JBool True),
                       (''effects'', JObject [(''reverb'', JNumber (Finite 0))])]),
             (''Rain'',
              JObject [(''volume'', JNumber (Finite (1 / 2))), (''is_playing'', JBool True),
                       (''effects'', JObject [(''reverb'', JNumber (Finite (1 / 4)))])]),
             (''Forest'',
              JObject [(''volume'', JNumber (Finite (1 / 4))), (''is_playing'', JBool True),
                       (''effects'', JObject [(''reverb'', JNumber (Finite (1 / 2)))])])]),
          (''category'', JString ''focus''),
          (''tags'', JArray [JString ''soft'']),
          (''created_at'', JString ''2024-05-01T10:00:00'')])]"

definition forest_missing :: mixer where
  "forest_missing =
     \<lparr>sounds =
        [(''Rain'', \<lparr>filename = ''sounds/rain.mp3'', volume = Finite 1, channel = None,
                     is_playing = False, effects = 0, button = Some ''Play''\<rparr>),
         (''Coffee Shop'', \<lparr>filename = ''sounds/coffee_shop.mp3'', volume = Finite 1, channel = None,
                     is_playing = False, effects = 1, button = Some ''Play''\<rparr>),
         (''White Noise'', \<lparr>filename = ''sounds/white_noise.mp3'', volume = Finite 1, channel = None,
                     is_playing = False, effects = 2, button = Some ''Play''\<rparr>),
         (''Forest'', \<lparr>filename = ''sounds/forest.mp3'', volume = Finite 1, channel = None,
                     is_playing = False, effects = 3, button = Some ''Play''\<rparr>),
         (''Ocean'', \<lparr>filename = ''sounds/ocean.mp3'', volume = Finite 1, channel = None,
                     is_playing = False, effects = 4, button = Some ''Play''\<rparr>)],
      presets =
        [(''calm'',
          \<lparr>name = ''calm'',
           settings =
             [(''Wind'', \<lparr>setting_volume = Finite 1, setting_is_playing = True, setting_effects = 5\<rparr>),
              (''Rain'', \<lparr>setting_volume = Finite (1 / 2), setting_is_playing = True, setting_effects = 6\<rparr>),
              (''Forest'', \<lparr>setting_volume = Finite (1 / 4), setting_is_playing = True, setting_effects = 7\<rparr>)],
           category = ''focus'', tags = [''soft''], created_at = ''2024-05-01T10:00:00''\<rparr>)],
      heap = (\<lambda>a. if a < 5 then [(''reverb'', Finite 0), (''eq_low'', Finite 1), (''eq_mid'', Finite 1), (''eq_high'', Finite 1)]
                  else if a = 5 then [(''reverb'', Finite 0)]
                  else if a = 6 then [(''reverb'', Finite (1 / 4))]
                  else if a = 7 then [(''reverb'', Finite (1 / 2))]
                  else []),
      next_addr = 8,
      channels = replicate 8 \<lparr>playing = None, chan_volume = Finite 1\<rparr>,
      sound_files = forest_absent, presets_file = Document calm_document,
      dialogs = [ShowWarning ''File Missing'' ''Sound file not found: sounds/forest.mp3''],
      error_log = [],
      preset_name_var = [], category_var = [], tags_var = [], preset_var = [],
      preset_combo = [''calm'']\<rparr>"

text \<open>
  Two more starts, with all sound files present. In the first the presets file holds one
  preset, \<open>storm\<close>, whose volume for Rain is NaN (see \<open>init_mixer_storm\<close>). In the second
  it holds one preset, \<open>odd\<close>, whose effects dictionary for Rain has the five field names
  of \<open>Preset\<close> as its keys (see \<open>init_mixer_odd\<close>).
\<close>

definition storm_document :: json where
  "storm_document =
     JObject
      [(''storm'',
        JObject
         [(''name'', JString ''storm''),
          (''settings'',
           JObject
            [(''Rain'',
              JObject [(''volume'', JNumber NaN), (''is_playing'', JBool False),
                       (''effects'', JObject [(''reverb'', JNumber (Finite 0))])])]),
          (''category'', JString ''weather''),
          (''tags'', JArray []),
          (''created_at'', JString ''2024-05-01T10:00:00'')])]"

definition storm_mixer :: mixer where
  "storm_mixer =
     quiet_mixer
      \<lparr>presets :=
         [(''storm'',
           \<lparr>name = ''storm'',
            settings =
              [(''Rain'', \<lparr>setting_volume = NaN, setting_is_playing = False, setting_effects = 5\<rparr>)],
            category = ''weather'', tags = [], created_at = ''2024-05-01T10:00:00''\<rparr>)],
       heap := (heap quiet_mixer)(5 := [(''reverb'', Finite 0)]),
       next_addr := 6,
       presets_file := Document storm_document,
       preset_combo := [''storm'']\<rparr>"

definition odd_document :: json where
  "odd_document =
     JObject
      [(''odd'',
        JObject
         [(''name'', JString ''odd''),
          (''settings'',
           JObject
            [(''Rain'',
              JObject [(''volume'', JNumber (Finite 1)), (''is_playing'', JBool False),
                       (''effects'',
                        JObject [(''name'', JNumber (Finite 0)), (''settings'', JNumber (Finite 0)),
                                 (''category'', JNumber (Finite 0)), (''tags'', JNumber (Finite 0)),
                                 (''created_at'', JNumber (Finite 0))])])]),
          (''category'', JString ''test''),
          (''tags'', JArray []),
          (''created_at'', JString ''2024-05-01T10:00:00'')])]"

definition odd_mixer :: mixer where
  "odd_mixer =
     quiet_mixer
      \<lparr>presets :=
         [(''odd'',
           \<lparr>name = ''odd'',
            settings =
              [(''Rain'', \<lparr>setting_volume = Finite 1, setting_is_playing = False, setting_effects = 5\<rparr>)],
            category = ''test'', tags = [], created_at = ''2024-05-01T10:00:00''\<rparr>)],
       heap := (heap quiet_mixer)
                 (5 := [(''name'', Finite 0), (''settings'', Finite 0), (''category'', Finite 0),
                        (''tags'', Finite 0), (''created_at'', Finite 0)]),
       next_addr := 6,
       presets_file := Document odd_document,
       preset_combo := [''odd'']\<rparr>"

section \<open>Association lists, channels and the start state\<close>

lemma map_fst_map_entry: "map fst (AList.map_entry k f xs) = map fst xs"
  by (induction xs) auto

lemma map_of_map_entry_same:
  "map_of xs k = Some v \<Longrightarrow> map_of (AList.map_entry k f xs) k = Some (f v)"
  by (simp add: map_of_map_entry)

lemma map_of_map_entry_other:
  "k' \<noteq> k \<Longrightarrow> map_of (AList.map_entry k f xs) k' = map_of xs k'"
  by (simp add: map_of_map_entry)

lemma map_of_in_snd_set: "map_of xs k = Some v \<Longrightarrow> v \<in> snd ` set xs"
  by (force dest: map_of_SomeD)

lemma find_channel_Some:
  "find_channel cs = Some c \<Longrightarrow> c < length cs \<and> playing (cs ! c) = None"
proof (induction cs arbitrary: c)
  case Nil
  then show ?case by simp
next
  case (Cons a cs)
  show ?case
  proof (cases "playing a = None")
    case True
    with Cons.prems show ?thesis by simp
  next
    case False
    with Cons.prems obtain d where "find_channel cs = Some d" "c = Suc d"
      by auto
    with Cons.IH [of d] show ?thesis by simp
  qed
qed

lemma Preset_raises: "Preset j = Inl e \<Longrightarrow> e = TypeError \<or> e = IllTyped"
  by (auto simp: Preset_def split: if_splits json.splits option.splits)

lemma load_items_raises: "load_items items s = Inl e \<Longrightarrow> e = TypeError \<or> e = IllTyped"
proof (induction items arbitrary: s)
  case Nil
  then show ?case by simp
next
  case (Cons x xs)
  obtain n j where x: "x = (n, j)" by (cases x)
  show ?case
  proof (cases "Preset j")
    case (Inl e')
    with Cons.prems x have "e = e'" by simp
    with Inl show ?thesis by (simp add: Preset_raises)
  next
    case (Inr p)
    obtain p' s1 where sp: "store_preset p s = (p', s1)" by (cases "store_preset p s")
    from Cons.prems x Inr sp have "load_items xs s1 = Inl e"
      by (cases "load_items xs s1") auto
    then show ?thesis by (rule Cons.IH)
  qed
qed

lemma make_presets_raises:
  "make_presets data s = Inl e \<Longrightarrow> \<not> caught e"
  by (cases data) (auto simp: make_presets_def caught_def dest: load_items_raises)

lemma load_presets_by_file:
  "presets_file s = No_file \<Longrightarrow> load_presets s = Inr ([], s)"
  "presets_file s = Not_json \<Longrightarrow> load_presets s = Inr ([], s)"
  "presets_file s = Undecodable \<Longrightarrow> load_presets s = Inl UnicodeDecodeError"
  "presets_file s = Document data \<Longrightarrow> load_presets s = make_presets data s"
proof -
  show "presets_file s = No_file \<Longrightarrow> load_presets s = Inr ([], s)"
    by (simp add: load_presets_def open_and_load_def caught_def)
  show "presets_file s = Not_json \<Longrightarrow> load_presets s = Inr ([], s)"
    by (simp add: load_presets_def open_and_load_def caught_def)
  show "presets_file s = Undecodable \<Longrightarrow> load_presets s = Inl UnicodeDecodeError"
    by (simp add: load_presets_def open_and_load_def caught_def)
  show "presets_file s = Document data \<Longrightarrow> load_presets s = make_presets data s"
    by (cases "make_presets data s")
      (auto simp: load_presets_def open_and_load_def dest: make_presets_raises)
qed

lemma init_mixer_quiet: "init_mixer 8 (\<lambda>_. Playable) No_file = Inr quiet_mixer"
  by (auto simp: init_mixer_def initialize_sounds_def new_Sound_def dict_new_def load_sounds_def
      load_sound_def load_presets_by_file(1) setup_ui_def quiet_mixer_def fun_eq_iff)

lemma rain_playing:
  "map_of (sounds (play_sound ''Rain'' quiet_mixer)) ''Rain'' =
     Some \<lparr>filename = ''sounds/rain.mp3'', volume = Finite 1, channel = Some 0,
           is_playing = True, effects = 0, button = Some ''Stop''\<rparr>"
  "length (channels (play_sound ''Rain'' quiet_mixer)) = 8"
  by (simp_all add: quiet_mixer_def play_sound_def mixer_Sound_def modify_sound_def
      channel_play_def channel_set_volume_def numeral_eq_Suc)

lemma calm_saved:
  "presets (save_preset ''2024-05-01T10:00:00'' (quiet_mixer\<lparr>preset_name_var := ''calm''\<rparr>)) =
     [(''calm'',
       \<lparr>name = ''calm'',
        settings =
          [(''Rain'', \<lparr>setting_volume = Finite 1, setting_is_playing = False, setting_effects = 5\<rparr>),
           (''Coffee Shop'', \<lparr>setting_volume = Finite 1, setting_is_playing = False, setting_effects = 6\<rparr>),
           (''White Noise'', \<lparr>setting_volume = Finite 1, setting_is_playing = False, setting_effects = 7\<rparr>),
           (''Forest'', \<lparr>setting_volume = Finite 1, setting_is_playing = False, setting_effects = 8\<rparr>),
           (''Ocean'', \<lparr>setting_volume = Finite 1, setting_is_playing = False, setting_effects = 9\<rparr>)],
        category = [], tags = [], created_at = ''2024-05-01T10:00:00''\<rparr>)]"
  "sounds (save_preset ''2024-05-01T10:00:00'' (quiet_mixer\<lparr>preset_name_var := ''calm''\<rparr>))
     = sounds quiet_mixer"
  "next_addr (save_preset ''2024-05-01T10:00:00'' (quiet_mixer\<lparr>preset_name_var := ''calm''\<rparr>)) = 10"
  "heap (save_preset ''2024-05-01T10:00:00'' (quiet_mixer\<lparr>preset_name_var := ''calm''\<rparr>)) =
     (\<lambda>a. if a < 10 then [(''reverb'', Finite 0), (''eq_low'', Finite 1), (''eq_mid'', Finite 1), (''eq_high'', Finite 1)] else [])"
  by (auto simp: save_preset_def quiet_mixer_def dict_copy_def save_presets_to_file_def
      update_preset_list_def show_dialog_def parse_tags_def strip_def fun_eq_iff Let_def)

lemma quiet_store_ok: "store_ok (quiet_mixer\<lparr>preset_name_var := n\<rparr>)"
  by (simp add: store_ok_def quiet_mixer_def)

lemma init_mixer_forest_missing:
  "init_mixer 8 forest_absent (Document calm_document) = Inr forest_missing"
  by (auto simp: init_mixer_def initialize_sounds_def new_Sound_def dict_new_def load_sounds_def
      load_sound_def load_presets_by_file(4) make_presets_def setup_ui_def forest_missing_def
      forest_absent_def calm_document_def Preset_def Preset_accepts_def read_fields_def
      field_names_def json_string_def json_strings_def json_items_def json_setting_def
      json_number_def json_bool_def store_preset_def show_dialog_def fun_eq_iff Let_def)

lemma init_mixer_storm:
  "init_mixer 8 (\<lambda>_. Playable) (Document storm_document) = Inr storm_mixer"
  by (auto simp: init_mixer_def initialize_sounds_def new_Sound_def dict_new_def load_sounds_def
      load_sound_def load_presets_by_file(4) make_presets_def setup_ui_def storm_mixer_def
      quiet_mixer_def storm_document_def Preset_def Preset_accepts_def read_fields_def
      field_names_def json_string_def json_strings_def json_items_def json_setting_def
      json_number_def json_bool_def store_preset_def show_dialog_def fun_eq_iff Let_def)

lemma init_mixer_odd:
  "init_mixer 8 (\<lambda>_. Playable) (Document odd_document) = Inr odd_mixer"
  by (auto simp: init_mixer_def initialize_sounds_def new_Sound_def dict_new_def load_sounds_def
      load_sound_def load_presets_by_file(4) make_presets_def setup_ui_def odd_mixer_def
      quiet_mixer_def odd_document_def Preset_def Preset_accepts_def read_fields_def
      field_names_def json_string_def json_strings_def json_items_def json_setting_def
      json_number_def json_bool_def store_preset_def show_dialog_def fun_eq_iff Let_def)

lemma forest_missing_calm:
  "map_of (presets (forest_missing\<lparr>preset_var := ''calm''\<rparr>))
      (preset_var (forest_missing\<lparr>preset_var := ''calm''\<rparr>)) =
     Some \<lparr>name = ''calm'',
           settings =
             [(''Wind'', \<lparr>setting_volume = Finite 1, setting_is_playing = True, setting_effects = 5\<rparr>),
              (''Rain'', \<lparr>setting_volume = Finite (1 / 2), setting_is_playing = True, setting_effects = 6\<rparr>),
              (''Forest'', \<lparr>setting_volume = Finite (1 / 4), setting_is_playing = True, setting_effects = 7\<rparr>)],
           category = ''focus'', tags = [''soft''], created_at = ''2024-05-01T10:00:00''\<rparr>"
  by (simp add: forest_missing_def)

lemma forest_missing_sounds:
  "map_of (sounds (forest_missing\<lparr>preset_var := ''calm''\<rparr>)) ''Wind'' = None"
  "map_of (sounds (forest_missing\<lparr>preset_var := ''calm''\<rparr>)) ''Rain'' =
     Some \<lparr>filename = ''sounds/rain.mp3'', volume = Finite 1, channel = None,
           is_playing = False, effects = 0, button = Some ''Play''\<rparr>"
  "map_of (sounds (forest_missing\<lparr>preset_var := ''calm''\<rparr>)) ''Forest'' =
     Some \<lparr>filename = ''sounds/forest.mp3'', volume = Finite 1, channel = None,
           is_playing = False, effects = 3, button = Some ''Play''\<rparr>"
  by (simp_all add: forest_missing_def)

lemma forest_missing_store_ok: "store_ok (forest_missing\<lparr>preset_var := ''calm''\<rparr>)"
  by (simp add: store_ok_def forest_missing_def)

lemma forest_missing_can_play:
  "can_play ''Rain'' (forest_missing\<lparr>preset_var := ''calm''\<rparr>)"
  by (simp add: can_play_def forest_missing_def forest_absent_def numeral_eq_Suc)

section \<open>What each operation leaves alone\<close>

lemma modify_sound_fields:
  "map fst (sounds (modify_sound n f s)) = map fst (sounds s)"
  "presets (modify_sound n f s) = presets s"
  "heap (modify_sound n f s) = heap s"
  "next_addr (modify_sound n f s) = next_addr s"
  "channels (modify_sound n f s) = channels s"
  "sound_files (modify_sound n f s) = sound_files s"
  "presets_file (modify_sound n f s) = presets_file s"
  by (simp_all add: modify_sound_def map_fst_map_entry)

lemma play_sound_names: "map fst (sounds (play_sound n s)) = map fst (sounds s)"
  by (simp add: play_sound_def show_dialog_def modify_sound_fields Let_def
      split: option.split sum.split)

lemma stop_sound_names: "map fst (sounds (stop_sound n s)) = map fst (sounds s)"
  by (simp add: stop_sound_def modify_sound_fields Let_def split: option.split)

lemma play_sound_store:
  "heap (play_sound n s) = heap s"
  "next_addr (play_sound n s) = next_addr s"
  "presets (play_sound n s) = presets s"
  "sound_files (play_sound n s) = sound_files s"
  "presets_file (play_sound n s) = presets_file s"
  by (simp_all add: play_sound_def show_dialog_def modify_sound_fields Let_def
      split: option.split sum.split)

lemma stop_sound_store:
  "heap (stop_sound n s) = heap s"
  "next_addr (stop_sound n s) = next_addr s"
  "presets (stop_sound n s) = presets s"
  "sound_files (stop_sound n s) = sound_files s"
  "presets_file (stop_sound n s) = presets_file s"
  by (simp_all add: stop_sound_def modify_sound_fields Let_def split: option.split)

lemma snapshot_frame:
  "snapshot xs s = (entries, s') \<Longrightarrow>
     sounds s' = sounds s \<and> presets s' = presets s \<and> channels s' = channels s
     \<and> sound_files s' = sound_files s \<and> presets_file s' = presets_file s
     \<and> dialogs s' = dialogs s \<and> preset_name_var s' = preset_name_var s"
proof (induction xs arbitrary: s entries s')
  case Nil
  then show ?case by simp
next
  case (Cons x xs)
  obtain n sound where x: "x = (n, sound)" by (cases x)
  obtain a s1 where c: "dict_copy (effects sound) s = (a, s1)" by (cases "dict_copy (effects sound) s")
  obtain es s2 where r: "snapshot xs s1 = (es, s2)" by (cases "snapshot xs s1")
  from Cons.prems x c r have "s' = s2" by simp
  moreover from c have "sounds s1 = sounds s \<and> presets s1 = presets s \<and> channels s1 = channels s
     \<and> sound_files s1 = sound_files s \<and> presets_file s1 = presets_file s
     \<and> dialogs s1 = dialogs s \<and> preset_name_var s1 = preset_name_var s"
    by (auto simp: dict_copy_def)
  ultimately show ?case using Cons.IH [OF r] by simp
qed

lemma save_preset_names: "map fst (sounds (save_preset now s)) = map fst (sounds s)"
proof (cases "preset_name_var s = []")
  case True
  then show ?thesis by (simp add: save_preset_def show_dialog_def)
next
  case False
  obtain es s1 where r: "snapshot (sounds s) s = (es, s1)" by (cases "snapshot (sounds s) s")
  from snapshot_frame [OF r] have "sounds s1 = sounds s" by simp
  with False r show ?thesis
    by (simp add: save_preset_def show_dialog_def update_preset_list_def save_presets_to_file_def Let_def)
qed

lemma apply_settings_names: "map fst (sounds (apply_settings e s)) = map fst (sounds s)"
  by (cases e)
    (simp add: apply_settings_def dict_copy_def play_sound_names stop_sound_names
      modify_sound_fields Let_def split: option.split)

lemma fold_apply_settings_names: "map fst (sounds (fold apply_settings es s)) = map fst (sounds s)"
  by (induction es arbitrary: s) (simp_all add: apply_settings_names)

lemma load_preset_names: "map fst (sounds (load_preset s)) = map fst (sounds s)"
  by (simp add: load_preset_def fold_apply_settings_names Let_def split: option.split)

lemma toggle_sound_names: "toggle_sound n s = Inr s' \<Longrightarrow> map fst (sounds s') = map fst (sounds s)"
  by (auto simp: toggle_sound_def play_sound_names stop_sound_names split: option.splits if_splits)

lemma update_effect_names: "update_effect n e v s = Inr s' \<Longrightarrow> map fst (sounds s') = map fst (sounds s)"
  by (auto simp: update_effect_def play_sound_names stop_sound_names Let_def split: option.splits if_splits)

lemma on_volume_change_names: "on_volume_change n v s = Inr s' \<Longrightarrow> map fst (sounds s') = map fst (sounds s)"
  by (auto simp: on_volume_change_def modify_sound_fields Let_def split: option.splits)

lemma update_effect_store:
  assumes "update_effect sn eff x t = Inr t'"
  shows "presets t' = presets t"
    and "\<exists>sound. map_of (sounds t) sn = Some sound
           \<and> heap t' = (heap t)(effects sound := AList.update eff x (heap t (effects sound)))"
  using assms
  by (auto simp: update_effect_def Let_def play_sound_store stop_sound_store
      split: option.splits if_splits)

lemma load_sound_sounds: "sounds (load_sound e s) = sounds s"
  by (cases e) (simp add: load_sound_def show_dialog_def split: audio_file.split)

lemma load_sounds_sounds: "sounds (load_sounds s) = sounds s"
proof -
  have "sounds (fold load_sound es t) = sounds t" for es t
    by (induction es arbitrary: t) (simp_all add: load_sound_sounds)
  then show ?thesis by (simp add: load_sounds_def)
qed

lemma store_settings_frame:
  "store_settings xs s = (entries, s') \<Longrightarrow> sounds s' = sounds s \<and> presets s' = presets s"
proof (induction xs arbitrary: s entries s')
  case Nil
  then show ?case by simp
next
  case (Cons x xs)
  obtain n st where x: "x = (n, st)" by (cases x)
  obtain a s1 where c: "dict_new (setting_effects st) s = (a, s1)"
    by (cases "dict_new (setting_effects st) s")
  obtain es s2 where r: "store_settings xs s1 = (es, s2)" by (cases "store_settings xs s1")
  from Cons.prems x c r have "s' = s2" by simp
  moreover from c have "sounds s1 = sounds s \<and> presets s1 = presets s"
    by (auto simp: dict_new_def)
  ultimately show ?case using Cons.IH [OF r] by simp
qed

lemma store_preset_frame:
  "store_preset p s = (p', s') \<Longrightarrow> sounds s' = sounds s \<and> presets s' = presets s"
  by (auto simp: store_preset_def split: prod.splits dest: store_settings_frame)

lemma load_items_frame:
  "load_items items s = Inr (ps, s') \<Longrightarrow> sounds s' = sounds s \<and> presets s' = presets s"
proof (induction items arbitrary: s ps s')
  case Nil
  then show ?case by simp
next
  case (Cons x xs)
  obtain n j where x: "x = (n, j)" by (cases x)
  from Cons.prems x obtain p where p: "Preset j = Inr p"
    by (cases "Preset j") auto
  obtain p' s1 where sp: "store_preset p s = (p', s1)" by (cases "store_preset p s")
  from Cons.prems x p sp obtain qs s2 where r: "load_items xs s1 = Inr (qs, s2)" and "s' = s2"
    by (cases "load_items xs s1") auto
  with Cons.IH [OF r] store_preset_frame [OF sp] show ?case by simp
qed

lemma load_presets_frame:
  "load_presets s = Inr (ps, s') \<Longrightarrow> sounds s' = sounds s \<and> presets s' = presets s"
  by (cases "presets_file s")
    (auto simp: load_presets_by_file make_presets_def split: json.splits dest: load_items_frame)

lemma initialize_sounds_names:
  "map fst (fst (initialize_sounds s)) = [''Rain'', ''Coffee Shop'', ''White Noise'', ''Forest'', ''Ocean'']"
  by (simp add: initialize_sounds_def split: prod.split)

lemma init_mixer_names:
  assumes "init_mixer k files doc = Inr s"
  shows "map fst (sounds s) = [''Rain'', ''Coffee Shop'', ''White Noise'', ''Forest'', ''Ocean'']"
proof -
  let ?s0 = "\<lparr>sounds = [], presets = [], heap = (\<lambda>_. []), next_addr = 0,
                channels = replicate k \<lparr>playing = None, chan_volume = Finite 1\<rparr>,
                sound_files = files, presets_file = doc, dialogs = [], error_log = [],
                preset_name_var = [], category_var = [], tags_var = [], preset_var = [],
                preset_combo = []\<rparr>"
  obtain registry s1 where i: "initialize_sounds ?s0 = (registry, s1)"
    by (cases "initialize_sounds ?s0")
  let ?s2 = "load_sounds (s1\<lparr>sounds := registry\<rparr>)"
  from assms i obtain ps s3 where l: "load_presets ?s2 = Inr (ps, s3)"
    and s: "s = setup_ui (s3\<lparr>presets := ps\<rparr>)"
    by (cases "load_presets ?s2") (auto simp: init_mixer_def)
  from load_presets_frame [OF l] have "sounds s3 = registry"
    by (simp add: load_sounds_sounds)
  moreover from initialize_sounds_names [of ?s0] i
  have "map fst registry = [''Rain'', ''Coffee Shop'', ''White Noise'', ''Forest'', ''Ocean'']"
    by simp
  ultimately show ?thesis using s
    by (simp add: setup_ui_def comp_def case_prod_unfold)
qed

text \<open>
  C3. The registry that \<open>__init__\<close> builds has the five slots Rain, Coffee Shop, White
  Noise, Forest and Ocean, and toggle, play, stop, volume change, effect update, preset
  save and preset load each leave the list of slot names as it was.
\<close>

theorem registry_fixed:
  "(\<forall>s0. init_mixer k files doc = Inr s0 \<longrightarrow>
       map fst (sounds s0) = [''Rain'', ''Coffee Shop'', ''White Noise'', ''Forest'', ''Ocean''])
   \<and> (\<forall>s'. toggle_sound n s = Inr s' \<longrightarrow> map fst (sounds s') = map fst (sounds s))
   \<and> map fst (sounds (play_sound n s)) = map fst (sounds s)
   \<and> map fst (sounds (stop_sound n s)) = map fst (sounds s)
   \<and> (\<forall>s'. on_volume_change n v s = Inr s' \<longrightarrow> map fst (sounds s') = map fst (sounds s))
   \<and> (\<forall>s'. update_effect n e x s = Inr s' \<longrightarrow> map fst (sounds s') = map fst (sounds s))
   \<and> map fst (sounds (save_preset now s)) = map fst (sounds s)
   \<and> map fst (sounds (load_preset s)) = map fst (sounds s)"
  by (simp add: init_mixer_names toggle_sound_names play_sound_names stop_sound_names
      on_volume_change_names update_effect_names save_preset_names load_preset_names)

theorem registry_fixed_witness:
  "init_mixer 8 (\<lambda>_. Playable) No_file = Inr quiet_mixer
   \<and> map fst (sounds quiet_mixer) = [''Rain'', ''Coffee Shop'', ''White Noise'', ''Forest'', ''Ocean'']
   \<and> (\<exists>s'. toggle_sound ''Rain'' quiet_mixer = Inr s'
          \<and> map fst (sounds s') = [''Rain'', ''Coffee Shop'', ''White Noise'', ''Forest'', ''Ocean''])
   \<and> (\<exists>s'. on_volume_change ''Rain'' (Finite 50) quiet_mixer = Inr s'
          \<and> map fst (sounds s') = [''Rain'', ''Coffee Shop'', ''White Noise'', ''Forest'', ''Ocean''])
   \<and> (\<exists>s'. update_effect ''Rain'' ''reverb'' (Finite (1 / 2)) quiet_mixer = Inr s'
          \<and> map fst (sounds s') = [''Rain'', ''Coffee Shop'', ''White Noise'', ''Forest'', ''Ocean''])"
proof -
  have names: "map fst (sounds quiet_mixer) = [''Rain'', ''Coffee Shop'', ''White Noise'', ''Forest'', ''Ocean'']"
    by (simp add: quiet_mixer_def)
  have rain: "map_of (sounds quiet_mixer) ''Rain'' \<noteq> None"
    by (simp add: quiet_mixer_def)
  from rain obtain t where t: "toggle_sound ''Rain'' quiet_mixer = Inr t"
    by (auto simp: toggle_sound_def)
  from rain obtain u where u: "on_volume_change ''Rain'' (Finite 50) quiet_mixer = Inr u"
    by (auto simp: on_volume_change_def Let_def)
  from rain obtain w where w: "update_effect ''Rain'' ''reverb'' (Finite (1 / 2)) quiet_mixer = Inr w"
    by (auto simp: update_effect_def Let_def)
  from registry_fixed [where k = 8 and files = "\<lambda>_. Playable" and doc = No_file and n = "''Rain''"
      and s = quiet_mixer and v = "Finite 50" and e = "''reverb''" and x = "Finite (1 / 2)"]
    init_mixer_quiet names t u w
  show ?thesis by simp
qed

section \<open>Playback and volume\<close>

text \<open>
  C6. When \<open>play_sound\<close> finds the slot, loads its file and obtains a channel \<open>c\<close>, that
  channel plays the slot's file with loop count \<open>-1\<close> at the slot's stored volume, and the
  slot is marked as playing on channel \<open>c\<close>.
\<close>

theorem play_sound_loops:
  assumes "map_of (sounds s) n = Some sound"
    and "sound_files s (filename sound) = Playable"
    and "find_channel (channels s) = Some c"
  shows "playing (channels (play_sound n s) ! c) = Some (filename sound, - 1)
       \<and> chan_volume (channels (play_sound n s) ! c) = volume sound
       \<and> (\<exists>x. map_of (sounds (play_sound n s)) n = Some x
              \<and> is_playing x \<and> channel x = Some c \<and> volume x = volume sound)"
proof -
  from assms(3) have c: "c < length (channels s)"
    by (simp add: find_channel_Some)
  show ?thesis
  proof (cases "button sound")
    case None
    with assms c show ?thesis
      by (simp add: play_sound_def mixer_Sound_def show_dialog_def modify_sound_def
          channel_play_def channel_set_volume_def map_of_map_entry)
  next
    case (Some b)
    with assms c show ?thesis
      by (simp add: play_sound_def mixer_Sound_def show_dialog_def modify_sound_def
          channel_play_def channel_set_volume_def map_of_map_entry)
  qed
qed

theorem play_sound_loops_witness:
  "map_of (sounds quiet_mixer) ''Rain'' = Some \<lparr>filename = ''sounds/rain.mp3'', volume = Finite 1, channel = None,
                     is_playing = False, effects = 0, button = Some ''Play''\<rparr>
   \<and> find_channel (channels quiet_mixer) = Some 0
   \<and> playing (channels (play_sound ''Rain'' quiet_mixer) ! 0) = Some (''sounds/rain.mp3'', - 1)
   \<and> chan_volume (channels (play_sound ''Rain'' quiet_mixer) ! 0) = Finite 1
   \<and> map_option is_playing (map_of (sounds (play_sound ''Rain'' quiet_mixer)) ''Rain'') = Some True"
proof -
  let ?rain = "\<lparr>filename = ''sounds/rain.mp3'', volume = Finite 1, channel = None,
                is_playing = False, effects = 0, button = Some ''Play''\<rparr>"
  have a: "map_of (sounds quiet_mixer) ''Rain'' = Some ?rain"
    by (simp add: quiet_mixer_def)
  have b: "sound_files quiet_mixer (filename ?rain) = Playable"
    by (simp add: quiet_mixer_def)
  have c: "find_channel (channels quiet_mixer) = Some 0"
    by (simp add: quiet_mixer_def numeral_eq_Suc)
  from play_sound_loops [OF a b c] a c show ?thesis
    by auto
qed

text \<open>
  C7. For a slider value \<open>v\<close> between 0 and 100, \<open>on_volume_change\<close> stores \<open>v / 100\<close> as
  the slot's volume and, when the slot has a channel, sets that channel's volume to
  \<open>v / 100\<close>; every other slot, and every effects dictionary, is left as it was.
\<close>

theorem on_volume_change_mixes:
  assumes "0 \<le> v" and "v \<le> 100" and "map_of (sounds s) n = Some sound"
  shows "\<exists>s'. on_volume_change n (Finite v) s = Inr s'
       \<and> map_option volume (map_of (sounds s') n) = Some (Finite (v / 100))
       \<and> (\<forall>c. channel sound = Some c \<longrightarrow> c < length (channels s) \<longrightarrow>
              chan_volume (channels s' ! c) = Finite (v / 100))
       \<and> (\<forall>m. m \<noteq> n \<longrightarrow> map_of (sounds s') m = map_of (sounds s) m)
       \<and> heap s' = heap s"
  using assms
  by (cases "channel sound")
    (simp_all add: on_volume_change_def modify_sound_def channel_set_volume_def map_of_map_entry)

theorem on_volume_change_mixes_witness:
  "(0::real) \<le> 50 \<and> (50::real) \<le> 100
   \<and> (\<exists>s'. on_volume_change ''Rain'' (Finite 50) (play_sound ''Rain'' quiet_mixer) = Inr s'
        \<and> map_option volume (map_of (sounds s') ''Rain'') = Some (Finite (1 / 2))
        \<and> chan_volume (channels s' ! 0) = Finite (1 / 2)
        \<and> map_of (sounds s') ''Ocean'' = map_of (sounds (play_sound ''Rain'' quiet_mixer)) ''Ocean'')"
proof -
  have r: "(0::real) \<le> 50" "(50::real) \<le> 100"
    by simp_all
  from on_volume_change_mixes [OF r rain_playing(1)] rain_playing(2) show ?thesis
    by auto
qed

section \<open>Guards of the preset operations\<close>

text \<open>
  C8. With an empty name field \<open>save_preset\<close> shows the warning and changes nothing else:
  the presets in memory, the presets file, the sound slots, the effects dictionaries and
  the channels are as before.
\<close>

theorem save_preset_empty_name:
  assumes "preset_name_var s = []"
  shows "dialogs (save_preset now s) = dialogs s @ [ShowWarning ''Warning'' ''Please enter a preset name'']
       \<and> presets (save_preset now s) = presets s
       \<and> presets_file (save_preset now s) = presets_file s
       \<and> sounds (save_preset now s) = sounds s
       \<and> heap (save_preset now s) = heap s
       \<and> channels (save_preset now s) = channels s"
  using assms by (simp add: save_preset_def show_dialog_def)

theorem save_preset_empty_name_witness:
  "preset_name_var quiet_mixer = []
   \<and> dialogs (save_preset ''2024-05-01T10:00:00'' quiet_mixer) =
       [ShowWarning ''Warning'' ''Please enter a preset name'']
   \<and> presets (save_preset ''2024-05-01T10:00:00'' quiet_mixer) = []
   \<and> presets_file (save_preset ''2024-05-01T10:00:00'' quiet_mixer) = No_file"
proof -
  have e: "preset_name_var quiet_mixer = []"
    by (simp add: quiet_mixer_def)
  from save_preset_empty_name [OF e, of "''2024-05-01T10:00:00''"] e show ?thesis
    by (simp add: quiet_mixer_def)
qed




text \<open>A document that is not an object makes \<open>load_presets\<close> raise as well.\<close>

lemma load_presets_not_object:
  "presets_file s = Document (JArray js) \<Longrightarrow> load_presets s = Inl AttributeError"
  by (simp add: load_presets_by_file(4) make_presets_def)

text \<open>
  C10. When the selected preset name is empty or is not a key of the presets in memory,
  \<open>load_preset\<close> returns at once: the whole state, and so every slot's volume, effects
  and playing flag, is unchanged.
\<close>

theorem load_preset_unknown:
  assumes "preset_var s = [] \<or> map_of (presets s) (preset_var s) = None"
  shows "load_preset s = s"
  using assms by (auto simp: load_preset_def)

theorem load_preset_unknown_witness:
  "preset_var quiet_mixer = []
   \<and> map_of (presets (quiet_mixer\<lparr>preset_var := ''calm''\<rparr>)) (preset_var (quiet_mixer\<lparr>preset_var := ''calm''\<rparr>)) = None
   \<and> load_preset quiet_mixer = quiet_mixer
   \<and> load_preset (quiet_mixer\<lparr>preset_var := ''calm''\<rparr>) = quiet_mixer\<lparr>preset_var := ''calm''\<rparr>"
proof -
  have a: "preset_var quiet_mixer = []"
    by (simp add: quiet_mixer_def)
  have b: "map_of (presets (quiet_mixer\<lparr>preset_var := ''calm''\<rparr>))
             (preset_var (quiet_mixer\<lparr>preset_var := ''calm''\<rparr>)) = None"
    by (simp add: quiet_mixer_def)
  from load_preset_unknown [of quiet_mixer] load_preset_unknown [of "quiet_mixer\<lparr>preset_var := ''calm''\<rparr>"]
    a b show ?thesis
    by blast
qed

section \<open>The presets file\<close>






lemma preset_value_cong:
  assumes "\<And>st. st \<in> snd ` set (settings p) \<Longrightarrow> h1 (setting_effects st) = h2 (setting_effects st)"
  shows "preset_value h1 p = preset_value h2 p"
proof -
  have "map (\<lambda>(n, st). (n, setting_value h1 st)) (settings p)
      = map (\<lambda>(n, st). (n, setting_value h2 st)) (settings p)"
    using assms by (force simp: setting_value_def)
  then show ?thesis by (simp add: preset_value_def)
qed

lemma store_settings_value:
  "store_settings vs s = (entries, s') \<Longrightarrow>
     next_addr s \<le> next_addr s'
     \<and> (\<forall>a < next_addr s. heap s' a = heap s a)
     \<and> map (\<lambda>(n, st). (n, setting_value (heap s') st)) entries = vs
     \<and> (\<forall>st \<in> snd ` set entries. setting_effects st < next_addr s')"
proof (induction vs arbitrary: s entries s')
  case Nil
  then show ?case by simp
next
  case (Cons x vs)
  obtain n v where x: "x = (n, v)" by (cases x)
  let ?s1 = "s\<lparr>heap := (heap s)(next_addr s := setting_effects v), next_addr := Suc (next_addr s)\<rparr>"
  obtain es s2 where r: "store_settings vs ?s1 = (es, s2)" by (cases "store_settings vs ?s1")
  from Cons.prems x r have e: "entries = (n, \<lparr>setting_volume = setting_volume v,
      setting_is_playing = setting_is_playing v, setting_effects = next_addr s\<rparr>) # es" and s': "s' = s2"
    by (simp_all add: dict_new_def)
  from Cons.IH [OF r] have ih: "Suc (next_addr s) \<le> next_addr s2"
    "\<forall>a < Suc (next_addr s). heap s2 a = heap ?s1 a"
    "map (\<lambda>(n, st). (n, setting_value (heap s2) st)) es = vs"
    "\<forall>st \<in> snd ` set es. setting_effects st < next_addr s2"
    by simp_all
  from ih(2) have here: "heap s2 (next_addr s) = setting_effects v"
    by simp
  from ih(2) have below: "\<forall>a < next_addr s. heap s2 a = heap s a"
    by simp
  from ih(1) ih(3) ih(4) here below show ?case
    unfolding e s' x by (auto simp: setting_value_def)
qed

lemma store_preset_value:
  assumes "store_preset p s = (p', s')"
  shows "next_addr s \<le> next_addr s'"
    and "\<forall>a < next_addr s. heap s' a = heap s a"
    and "preset_value (heap s') p' = p"
    and "\<forall>st \<in> snd ` set (settings p'). setting_effects st < next_addr s'"
proof -
  obtain es where r: "store_settings (settings p) s = (es, s')"
    and p': "p' = \<lparr>name = name p, settings = es, category = category p,
                   tags = tags p, created_at = created_at p\<rparr>"
    using assms by (auto simp: store_preset_def split: prod.splits)
  from store_settings_value [OF r] show "next_addr s \<le> next_addr s'"
    and "\<forall>a < next_addr s. heap s' a = heap s a"
    and "preset_value (heap s') p' = p"
    and "\<forall>st \<in> snd ` set (settings p'). setting_effects st < next_addr s'"
    by (simp_all add: p' preset_value_def)
qed




















section \<open>Saving a preset\<close>

lemma snapshot_value:
  assumes "snapshot xs s = (entries, s')"
    and "\<forall>sound \<in> snd ` set xs. effects sound < next_addr s"
  shows "next_addr s \<le> next_addr s'
     \<and> (\<forall>a < next_addr s. heap s' a = heap s a)
     \<and> map (\<lambda>(n, st). (n, setting_value (heap s') st)) entries =
         map (\<lambda>(n, sound). (n, \<lparr>setting_volume = volume sound,
                                 setting_is_playing = is_playing sound,
                                 setting_effects = heap s (effects sound)\<rparr>)) xs
     \<and> (\<forall>st \<in> snd ` set entries. next_addr s \<le> setting_effects st \<and> setting_effects st < next_addr s')"
  using assms
proof (induction xs arbitrary: s entries s')
  case Nil
  then show ?case by simp
next
  case (Cons x xs)
  obtain n sound where x: "x = (n, sound)" by (cases x)
  let ?s1 = "s\<lparr>heap := (heap s)(next_addr s := heap s (effects sound)), next_addr := Suc (next_addr s)\<rparr>"
  obtain es s2 where r: "snapshot xs ?s1 = (es, s2)" by (cases "snapshot xs ?s1")
  from Cons.prems(1) x r have e: "entries = (n, \<lparr>setting_volume = volume sound,
      setting_is_playing = is_playing sound, setting_effects = next_addr s\<rparr>) # es" and s': "s' = s2"
    by (simp_all add: dict_copy_def)
  from Cons.prems(2) have old: "\<forall>y \<in> snd ` set xs. effects y < next_addr s"
    by auto
  then have "\<forall>y \<in> snd ` set xs. effects y < next_addr ?s1"
    by auto
  from Cons.IH [OF r this] have ih: "Suc (next_addr s) \<le> next_addr s2"
    "\<forall>a < Suc (next_addr s). heap s2 a = heap ?s1 a"
    "map (\<lambda>(n, st). (n, setting_value (heap s2) st)) es =
       map (\<lambda>(n, y). (n, \<lparr>setting_volume = volume y, setting_is_playing = is_playing y,
                            setting_effects = heap ?s1 (effects y)\<rparr>)) xs"
    "\<forall>st \<in> snd ` set es. Suc (next_addr s) \<le> setting_effects st \<and> setting_effects st < next_addr s2"
    by simp_all
  from ih(2) have here: "heap s2 (next_addr s) = heap s (effects sound)"
    by simp
  from ih(2) have below: "\<forall>a < next_addr s. heap s2 a = heap s a"
    by simp
  have same: "map (\<lambda>(n, y). (n, \<lparr>setting_volume = volume y, setting_is_playing = is_playing y,
                            setting_effects = heap ?s1 (effects y)\<rparr>)) xs
            = map (\<lambda>(n, y). (n, \<lparr>setting_volume = volume y, setting_is_playing = is_playing y,
                            setting_effects = heap s (effects y)\<rparr>)) xs"
    using old by (auto simp: rev_image_eqI)
  have fresh: "\<forall>st \<in> snd ` set es. next_addr s \<le> setting_effects st \<and> setting_effects st < next_addr s2"
    using ih(4) by auto
  from ih(1) ih(3) here below same fresh show ?case
    unfolding e s' x by (simp add: setting_value_def)
qed

text \<open>
  C4. With a non-empty name, \<open>save_preset\<close> stores under that name a preset whose settings
  have one entry per sound slot, in the registry's order, recording the slot's volume, its
  playing flag and the items that its effects dictionary holds at that moment. The entry
  refers to a copy: whatever \<open>update_effect\<close> does afterwards to a sound's live effects,
  the saved preset keeps its value.
\<close>

theorem save_preset_snapshot:
  assumes "preset_name_var s \<noteq> []" and "store_ok s"
  shows "\<exists>p. map_of (presets (save_preset now s)) (preset_name_var s) = Some p
      \<and> settings (preset_value (heap (save_preset now s)) p) =
          map (\<lambda>(n, sound). (n, \<lparr>setting_volume = volume sound,
                                  setting_is_playing = is_playing sound,
                                  setting_effects = heap s (effects sound)\<rparr>)) (sounds s)
      \<and> (\<forall>sn eff x s2. update_effect sn eff x (save_preset now s) = Inr s2 \<longrightarrow>
            map_of (presets s2) (preset_name_var s) = Some p
            \<and> preset_value (heap s2) p = preset_value (heap (save_preset now s)) p)"
proof -
  let ?t = "save_preset now s"
  obtain es s1 where r: "snapshot (sounds s) s = (es, s1)" by (cases "snapshot (sounds s) s")
  let ?p = "\<lparr>name = preset_name_var s, settings = es, category = category_var s,
             tags = parse_tags (tags_var s), created_at = now\<rparr>"
  from assms(2) have live: "\<forall>sound \<in> snd ` set (sounds s). effects sound < next_addr s"
    by (simp add: store_ok_def)
  note sv = snapshot_value [OF r live]
  note fr = snapshot_frame [OF r]
  from assms(1) r have t_presets: "presets ?t = AList.update (preset_name_var s) ?p (presets s1)"
    and t_heap: "heap ?t = heap s1" and t_sounds: "sounds ?t = sounds s1"
    by (simp_all add: save_preset_def Let_def show_dialog_def update_preset_list_def
        save_presets_to_file_def)
  have look: "map_of (presets ?t) (preset_name_var s) = Some ?p"
    by (simp add: t_presets update_conv')
  have snap: "settings (preset_value (heap ?t) ?p) =
          map (\<lambda>(n, sound). (n, \<lparr>setting_volume = volume sound,
                                  setting_is_playing = is_playing sound,
                                  setting_effects = heap s (effects sound)\<rparr>)) (sounds s)"
    using sv by (simp add: preset_value_def t_heap)
  have stable: "map_of (presets s2) (preset_name_var s) = Some ?p
            \<and> preset_value (heap s2) ?p = preset_value (heap ?t) ?p"
    if u: "update_effect sn eff x ?t = Inr s2" for sn eff x s2
  proof -
    from update_effect_store [OF u] obtain sound where
      eq: "presets s2 = presets ?t" and snd: "map_of (sounds ?t) sn = Some sound"
      and h: "heap s2 = (heap ?t)(effects sound := AList.update eff x (heap ?t (effects sound)))"
      by blast
    from snd fr have "sound \<in> snd ` set (sounds s)"
      by (simp add: t_sounds map_of_in_snd_set)
    with live have old: "effects sound < next_addr s"
      by blast
    have "preset_value (heap s2) ?p = preset_value (heap ?t) ?p"
    proof (rule preset_value_cong)
      fix st
      assume "st \<in> snd ` set (settings ?p)"
      with sv have "next_addr s \<le> setting_effects st"
        by auto
      with old show "heap s2 (setting_effects st) = heap ?t (setting_effects st)"
        by (simp add: h)
    qed
    with eq look show ?thesis by simp
  qed
  from look snap stable show ?thesis by blast
qed

theorem save_preset_snapshot_witness:
  "preset_name_var (quiet_mixer\<lparr>preset_name_var := ''calm''\<rparr>) \<noteq> []
   \<and> store_ok (quiet_mixer\<lparr>preset_name_var := ''calm''\<rparr>)
   \<and> (\<exists>p s2.
         map_of (presets (save_preset ''2024-05-01T10:00:00'' (quiet_mixer\<lparr>preset_name_var := ''calm''\<rparr>)))
           ''calm'' = Some p
       \<and> map fst (settings p) = [''Rain'', ''Coffee Shop'', ''White Noise'', ''Forest'', ''Ocean'']
       \<and> update_effect ''Rain'' ''reverb'' (Finite (1 / 2))
           (save_preset ''2024-05-01T10:00:00'' (quiet_mixer\<lparr>preset_name_var := ''calm''\<rparr>)) = Inr s2
       \<and> heap s2 0 = [(''reverb'', Finite (1 / 2)), (''eq_low'', Finite 1), (''eq_mid'', Finite 1), (''eq_high'', Finite 1)]
       \<and> map_of (presets s2) ''calm'' = Some p
       \<and> map (setting_effects \<circ> snd) (settings (preset_value (heap s2) p)) =
           replicate 5 [(''reverb'', Finite 0), (''eq_low'', Finite 1), (''eq_mid'', Finite 1), (''eq_high'', Finite 1)])"
proof -
  let ?q = "quiet_mixer\<lparr>preset_name_var := ''calm''\<rparr>"
  let ?t = "save_preset ''2024-05-01T10:00:00'' ?q"
  have n: "preset_name_var ?q \<noteq> []"
    by simp
  from save_preset_snapshot [OF n quiet_store_ok, of "''2024-05-01T10:00:00''"]
  obtain p where look: "map_of (presets ?t) ''calm'' = Some p"
    and snap: "settings (preset_value (heap ?t) p) =
          map (\<lambda>(n, sound). (n, \<lparr>setting_volume = volume sound,
                                  setting_is_playing = is_playing sound,
                                  setting_effects = heap ?q (effects sound)\<rparr>)) (sounds ?q)"
    and stable: "\<And>sn eff x s2. update_effect sn eff x ?t = Inr s2 \<Longrightarrow>
            map_of (presets s2) ''calm'' = Some p
            \<and> preset_value (heap s2) p = preset_value (heap ?t) p"
    by auto
  from look have p: "map fst (settings p) = [''Rain'', ''Coffee Shop'', ''White Noise'', ''Forest'', ''Ocean'']"
    by (auto simp: calm_saved(1))
  have rain: "map_of (sounds ?t) ''Rain'' = Some \<lparr>filename = ''sounds/rain.mp3'', volume = Finite 1,
      channel = None, is_playing = False, effects = 0, button = Some ''Play''\<rparr>"
    by (simp add: calm_saved(2)) (simp add: quiet_mixer_def)
  then obtain s2 where u: "update_effect ''Rain'' ''reverb'' (Finite (1 / 2)) ?t = Inr s2"
    by (simp add: update_effect_def Let_def)
  from update_effect_store(2) [OF u] rain
  have "heap s2 = (heap ?t)(0 := AList.update ''reverb'' (Finite (1 / 2)) (heap ?t 0))"
    by simp
  then have live: "heap s2 0 = [(''reverb'', Finite (1 / 2)), (''eq_low'', Finite 1), (''eq_mid'', Finite 1), (''eq_high'', Finite 1)]"
    by (simp add: calm_saved(4))
  from stable [OF u] snap
  have "settings (preset_value (heap s2) p) =
          map (\<lambda>(n, sound). (n, \<lparr>setting_volume = volume sound,
                                  setting_is_playing = is_playing sound,
                                  setting_effects = heap ?q (effects sound)\<rparr>)) (sounds ?q)"
    by simp
  then have kept: "map (setting_effects \<circ> snd) (settings (preset_value (heap s2) p)) =
           replicate 5 [(''reverb'', Finite 0), (''eq_low'', Finite 1), (''eq_mid'', Finite 1), (''eq_high'', Finite 1)]"
    by (simp add: quiet_mixer_def numeral_eq_Suc)
  from stable [OF u] have st: "map_of (presets s2) ''calm'' = Some p"
    by simp
  show ?thesis
  proof (intro conjI exI)
    show "preset_name_var ?q \<noteq> []" by (rule n)
    show "store_ok ?q" by (rule quiet_store_ok)
    show "map_of (presets ?t) ''calm'' = Some p" by (rule look)
    show "map fst (settings p) = [''Rain'', ''Coffee Shop'', ''White Noise'', ''Forest'', ''Ocean'']"
      by (rule p)
    show "update_effect ''Rain'' ''reverb'' (Finite (1 / 2)) ?t = Inr s2" by (rule u)
    show "heap s2 0 = [(''reverb'', Finite (1 / 2)), (''eq_low'', Finite 1), (''eq_mid'', Finite 1), (''eq_high'', Finite 1)]"
      by (rule live)
    show "map_of (presets s2) ''calm'' = Some p" by (rule st)
    show "map (setting_effects \<circ> snd) (settings (preset_value (heap s2) p)) =
           replicate 5 [(''reverb'', Finite 0), (''eq_low'', Finite 1), (''eq_mid'', Finite 1), (''eq_high'', Finite 1)]"
      by (rule kept)
  qed
qed

section \<open>Applying a preset\<close>

lemma modify_sound_other:
  "m \<noteq> n \<Longrightarrow> map_of (sounds (modify_sound m f s)) n = map_of (sounds s) n"
  by (simp add: modify_sound_def map_of_map_entry)

lemma play_sound_other:
  "m \<noteq> n \<Longrightarrow> map_of (sounds (play_sound m s)) n = map_of (sounds s) n"
  by (simp add: play_sound_def show_dialog_def modify_sound_other Let_def
      split: option.split sum.split)

lemma stop_sound_other:
  "m \<noteq> n \<Longrightarrow> map_of (sounds (stop_sound m s)) n = map_of (sounds s) n"
  by (simp add: stop_sound_def modify_sound_other Let_def split: option.split)

lemma play_sound_channels_length: "length (channels (play_sound n s)) = length (channels s)"
  by (simp add: play_sound_def show_dialog_def modify_sound_fields Let_def
      channel_play_def channel_set_volume_def split: option.split sum.split)

lemma play_sound_flag:
  assumes "map_of (sounds s) n = Some sound"
  shows "\<exists>x. map_of (sounds (play_sound n s)) n = Some x
     \<and> volume x = volume sound \<and> effects x = effects sound
     \<and> is_playing x = (is_playing sound \<or> can_play n s)"
proof (cases "sound_files s (filename sound)")
  case Absent
  with assms show ?thesis
    by (simp add: play_sound_def mixer_Sound_def show_dialog_def can_play_def)
next
  case Corrupt
  with assms show ?thesis
    by (simp add: play_sound_def mixer_Sound_def show_dialog_def can_play_def)
next
  case Playable
  show ?thesis
  proof (cases "find_channel (channels s)")
    case None
    with assms Playable show ?thesis
      by (simp add: play_sound_def mixer_Sound_def show_dialog_def can_play_def)
  next
    case (Some c)
    with assms Playable show ?thesis
      by (cases "button sound")
        (simp_all add: play_sound_def mixer_Sound_def show_dialog_def can_play_def
          modify_sound_def map_of_map_entry)
  qed
qed

lemma stop_sound_flag:
  assumes "map_of (sounds s) n = Some sound"
  shows "\<exists>x. map_of (sounds (stop_sound n s)) n = Some x
     \<and> volume x = volume sound \<and> effects x = effects sound \<and> \<not> is_playing x"
  using assms
  by (cases "button sound"; cases "channel sound")
    (simp_all add: stop_sound_def modify_sound_def map_of_map_entry)

lemma apply_settings_ignored:
  "map_of (sounds s) m = None \<Longrightarrow> apply_settings (m, st) s = s"
  by (simp add: apply_settings_def)

lemma apply_settings_other:
  "m \<noteq> n \<Longrightarrow> map_of (sounds (apply_settings (m, st) s)) n = map_of (sounds s) n"
  by (simp add: apply_settings_def dict_copy_def play_sound_other stop_sound_other
      modify_sound_other Let_def split: option.split)

lemma apply_settings_store:
  "next_addr s \<le> next_addr (apply_settings e s)"
  "a < next_addr s \<Longrightarrow> heap (apply_settings e s) a = heap s a"
  "sound_files (apply_settings e s) = sound_files s"
  by (cases e; simp add: apply_settings_def dict_copy_def play_sound_store stop_sound_store
      modify_sound_fields Let_def split: option.split)+

lemma fold_apply_settings_store:
  "next_addr s \<le> next_addr (fold apply_settings es s)
   \<and> (\<forall>a < next_addr s. heap (fold apply_settings es s) a = heap s a)
   \<and> sound_files (fold apply_settings es s) = sound_files s"
proof (induction es arbitrary: s)
  case Nil
  show ?case by simp
next
  case (Cons e es)
  from Cons.IH [of "apply_settings e s"] apply_settings_store(1) [of s e]
    apply_settings_store(2) [of _ s e] apply_settings_store(3) [of e s]
  show ?case by (auto simp: le_trans)
qed

lemma fold_apply_settings_other:
  "n \<notin> fst ` set es \<Longrightarrow> map_of (sounds (fold apply_settings es s)) n = map_of (sounds s) n"
proof (induction es arbitrary: s)
  case Nil
  show ?case by simp
next
  case (Cons e es)
  obtain m st where e: "e = (m, st)" by (cases e)
  with Cons.prems have "m \<noteq> n" "n \<notin> fst ` set es"
    by auto
  with Cons.IH [of "apply_settings e s"] show ?case
    by (simp add: e apply_settings_other)
qed

lemma apply_settings_entry:
  assumes "map_of (sounds s) n = Some sound"
  shows "\<exists>x. map_of (sounds (apply_settings (n, st) s)) n = Some x
     \<and> volume x = setting_volume st
     \<and> effects x = next_addr s
     \<and> heap (apply_settings (n, st) s) (next_addr s) = heap s (setting_effects st)
     \<and> next_addr (apply_settings (n, st) s) = Suc (next_addr s)
     \<and> is_playing x = (setting_is_playing st \<and> (is_playing sound \<or> can_play n s))"
proof -
  let ?s1 = "s\<lparr>heap := (heap s)(next_addr s := heap s (setting_effects st)),
               next_addr := Suc (next_addr s)\<rparr>"
  let ?s2 = "modify_sound n (\<lambda>x. x\<lparr>volume := setting_volume st, effects := next_addr s\<rparr>) ?s1"
  let ?y = "sound\<lparr>volume := setting_volume st, effects := next_addr s\<rparr>"
  have y: "map_of (sounds ?s2) n = Some ?y"
    using assms by (simp add: modify_sound_def map_of_map_entry)
  have cp: "can_play n ?s2 = can_play n s"
    using assms by (simp add: can_play_def modify_sound_def map_of_map_entry)
  have ap: "apply_settings (n, st) s =
      (if setting_is_playing st then play_sound n ?s2 else stop_sound n ?s2)"
    using assms by (simp add: apply_settings_def dict_copy_def Let_def)
  have h2: "heap ?s2 (next_addr s) = heap s (setting_effects st)" "next_addr ?s2 = Suc (next_addr s)"
    by (simp_all add: modify_sound_fields)
  show ?thesis
  proof (cases "setting_is_playing st")
    case True
    from play_sound_flag [OF y] obtain x where
      "map_of (sounds (play_sound n ?s2)) n = Some x" "volume x = setting_volume st"
      "effects x = next_addr s" "is_playing x = (is_playing sound \<or> can_play n s)"
      by (auto simp: cp)
    with True h2 show ?thesis
      by (simp add: ap play_sound_store)
  next
    case False
    from stop_sound_flag [OF y] obtain x where
      "map_of (sounds (stop_sound n ?s2)) n = Some x" "volume x = setting_volume st"
      "effects x = next_addr s" "\<not> is_playing x"
      by auto
    with False h2 show ?thesis
      by (simp add: ap stop_sound_store)
  qed
qed

lemma fold_apply_settings_registered:
  "fold apply_settings (filter (\<lambda>e. map_of (sounds s) (fst e) \<noteq> None) es) s
     = fold apply_settings es s"
proof (induction es arbitrary: s)
  case Nil
  show ?case by simp
next
  case (Cons e es)
  obtain m st where e: "e = (m, st)" by (cases e)
  show ?case
  proof (cases "map_of (sounds s) m")
    case None
    with Cons.IH [of s] show ?thesis
      by (simp add: e apply_settings_ignored)
  next
    case (Some sound)
    let ?t = "apply_settings e s"
    have "map fst (sounds ?t) = map fst (sounds s)"
      by (rule apply_settings_names)
    then have "(map_of (sounds ?t) k \<noteq> None) = (map_of (sounds s) k \<noteq> None)" for k
      by (metis map_of_eq_None_iff set_map)
    then have "filter (\<lambda>e. map_of (sounds s) (fst e) \<noteq> None) es
             = filter (\<lambda>e. map_of (sounds ?t) (fst e) \<noteq> None) es"
      by simp
    with Cons.IH [of ?t] Some show ?thesis
      by (simp add: e)
  qed
qed

text \<open>
  C2, as the claim states it, fails: the preset \<open>calm\<close> records Forest as playing and
  Forest is a slot of the registry, but the sound file is missing, \<open>play_sound\<close> ends in
  its error box, and after \<open>load_preset\<close> Forest is not playing.
\<close>

theorem load_preset_playing_counterexample:
  "map_of (presets (forest_missing\<lparr>preset_var := ''calm''\<rparr>))
      (preset_var (forest_missing\<lparr>preset_var := ''calm''\<rparr>)) =
     Some \<lparr>name = ''calm'',
           settings =
             [(''Wind'', \<lparr>setting_volume = Finite 1, setting_is_playing = True, setting_effects = 5\<rparr>),
              (''Rain'', \<lparr>setting_volume = Finite (1 / 2), setting_is_playing = True, setting_effects = 6\<rparr>),
              (''Forest'', \<lparr>setting_volume = Finite (1 / 4), setting_is_playing = True, setting_effects = 7\<rparr>)],
           category = ''focus'', tags = [''soft''], created_at = ''2024-05-01T10:00:00''\<rparr>
   \<and> map_of (sounds (forest_missing\<lparr>preset_var := ''calm''\<rparr>)) ''Forest'' =
       Some \<lparr>filename = ''sounds/forest.mp3'', volume = Finite 1, channel = None,
             is_playing = False, effects = 3, button = Some ''Play''\<rparr>
   \<and> map_of (sounds (load_preset (forest_missing\<lparr>preset_var := ''calm''\<rparr>))) ''Forest'' =
       Some \<lparr>filename = ''sounds/forest.mp3'', volume = Finite (1 / 4), channel = None,
             is_playing = False, effects = 9, button = Some ''Play''\<rparr>"
  by (simp add: forest_missing_def forest_absent_def load_preset_def apply_settings_def
      dict_copy_def modify_sound_def play_sound_def mixer_Sound_def show_dialog_def
      channel_play_def channel_set_volume_def numeral_eq_Suc Let_def)

text \<open>
  C2, amended. For a stored preset and a sound name \<open>n\<close> that occurs in the preset's
  settings and in the registry, \<open>load_preset\<close> sets the slot's volume to the stored volume
  and its effects to a dictionary with the stored items. Afterwards the slot is not
  playing when the preset recorded \<open>is_playing\<close> as false; when it recorded true, the slot
  is playing exactly if it was playing before or \<open>play_sound\<close>, at the slot's turn in the
  loop (after the entries \<open>pre\<close> that precede it), could load the sound file and find an
  idle channel. Entries whose sound name is not in the registry are ignored: dropping
  them from the settings gives the same result.
\<close>

theorem load_preset_applies:
  assumes "preset_var s \<noteq> []"
    and "map_of (presets s) (preset_var s) = Some p"
    and "store_ok s"
    and "distinct (map fst (settings p))"
    and "settings p = pre @ (n, st) # post"
    and "map_of (sounds s) n = Some sound"
  shows "(\<exists>x. map_of (sounds (load_preset s)) n = Some x
          \<and> volume x = setting_volume st
          \<and> heap (load_preset s) (effects x) = heap s (setting_effects st)
          \<and> is_playing x =
              (setting_is_playing st \<and> (is_playing sound \<or> can_play n (fold apply_settings pre s))))
       \<and> load_preset s =
           fold apply_settings (filter (\<lambda>e. map_of (sounds s) (fst e) \<noteq> None) (settings p)) s"
proof -
  let ?mid = "fold apply_settings pre s"
  let ?after = "apply_settings (n, st) ?mid"
  let ?final = "fold apply_settings post ?after"
  have lp: "load_preset s = fold apply_settings (settings p) s"
    using assms(1,2) by (simp add: load_preset_def)
  then have fin: "load_preset s = ?final"
    by (simp add: assms(5))
  from assms(4,5) have npre: "n \<notin> fst ` set pre" and npost: "n \<notin> fst ` set post"
    by auto
  have mid: "map_of (sounds ?mid) n = Some sound"
    using npre assms(6) by (simp add: fold_apply_settings_other)
  from apply_settings_entry [OF mid, of st] obtain x where
    x: "map_of (sounds ?after) n = Some x"
    and vol: "volume x = setting_volume st"
    and eff: "effects x = next_addr ?mid"
    and hp: "heap ?after (next_addr ?mid) = heap ?mid (setting_effects st)"
    and nx: "next_addr ?after = Suc (next_addr ?mid)"
    and flag: "is_playing x = (setting_is_playing st \<and> (is_playing sound \<or> can_play n ?mid))"
    by blast
  have fx: "map_of (sounds ?final) n = Some x"
    using npost x by (simp add: fold_apply_settings_other)
  from assms(2) have "p \<in> snd ` set (presets s)"
    by (rule map_of_in_snd_set)
  moreover have "st \<in> snd ` set (settings p)"
    by (simp add: assms(5) image_Un)
  ultimately have old: "setting_effects st < next_addr s"
    using assms(3) by (auto simp: store_ok_def)
  from fold_apply_settings_store [of s pre] old
  have "heap ?mid (setting_effects st) = heap s (setting_effects st)"
    by simp
  moreover from fold_apply_settings_store [of ?after post] nx
  have "heap ?final (next_addr ?mid) = heap ?after (next_addr ?mid)"
    by simp
  ultimately have "heap ?final (effects x) = heap s (setting_effects st)"
    using hp eff by simp
  with fx vol flag have "\<exists>x. map_of (sounds (load_preset s)) n = Some x
          \<and> volume x = setting_volume st
          \<and> heap (load_preset s) (effects x) = heap s (setting_effects st)
          \<and> is_playing x =
              (setting_is_playing st \<and> (is_playing sound \<or> can_play n (fold apply_settings pre s)))"
    unfolding fin by blast
  moreover have "load_preset s =
      fold apply_settings (filter (\<lambda>e. map_of (sounds s) (fst e) \<noteq> None) (settings p)) s"
    unfolding lp by (rule fold_apply_settings_registered [symmetric])
  ultimately show ?thesis by blast
qed

theorem load_preset_applies_witness:
  "preset_var (forest_missing\<lparr>preset_var := ''calm''\<rparr>) \<noteq> []
   \<and> store_ok (forest_missing\<lparr>preset_var := ''calm''\<rparr>)
   \<and> distinct [''Wind'', ''Rain'', ''Forest'']
   \<and> (\<exists>x. map_of (sounds (load_preset (forest_missing\<lparr>preset_var := ''calm''\<rparr>))) ''Rain'' = Some x
          \<and> volume x = Finite (1 / 2)
          \<and> heap (load_preset (forest_missing\<lparr>preset_var := ''calm''\<rparr>)) (effects x) = [(''reverb'', Finite (1 / 4))]
          \<and> is_playing x)"
proof -
  let ?s = "forest_missing\<lparr>preset_var := ''calm''\<rparr>"
  let ?wind = "(''Wind'', \<lparr>setting_volume = Finite 1, setting_is_playing = True, setting_effects = 5::addr\<rparr>)"
  let ?rain = "\<lparr>setting_volume = Finite (1 / 2), setting_is_playing = True, setting_effects = 6::addr\<rparr>"
  let ?forest = "(''Forest'', \<lparr>setting_volume = Finite (1 / 4), setting_is_playing = True, setting_effects = 7::addr\<rparr>)"
  let ?p = "\<lparr>name = ''calm'', settings = [?wind, (''Rain'', ?rain), ?forest],
             category = ''focus'', tags = [''soft''], created_at = ''2024-05-01T10:00:00''\<rparr>"
  have a: "preset_var ?s \<noteq> []"
    by simp
  have d: "distinct (map fst (settings ?p))"
    by simp
  have e: "settings ?p = [?wind] @ (''Rain'', ?rain) # [?forest]"
    by simp
  have w: "fold apply_settings [?wind] ?s = ?s"
    using apply_settings_ignored [OF forest_missing_sounds(1)] by simp
  have h: "heap ?s 6 = [(''reverb'', Finite (1 / 4))]"
    by (simp add: forest_missing_def)
  from load_preset_applies [OF a forest_missing_calm forest_missing_store_ok d e forest_missing_sounds(2)]
  obtain x where "map_of (sounds (load_preset ?s)) ''Rain'' = Some x" "volume x = Finite (1 / 2)"
    "heap (load_preset ?s) (effects x) = [(''reverb'', Finite (1 / 4))]" "is_playing x"
    using w h forest_missing_can_play by auto
  with a forest_missing_store_ok show ?thesis
    by auto
qed

section \<open>The store stays well formed\<close>

text \<open>
  The hypothesis \<open>store_ok\<close> of the theorems above holds when the window opens and is
  kept by every operation.
\<close>

lemma store_ok_alt:
  "store_ok s =
     ((\<forall>a \<in> set (map (effects \<circ> snd) (sounds s)). a < next_addr s) \<and>
      (\<forall>p \<in> snd ` set (presets s). \<forall>st \<in> snd ` set (settings p). setting_effects st < next_addr s))"
  by (auto simp: store_ok_def)

lemma map_entry_effects:
  "(\<And>x. effects (f x) = effects x) \<Longrightarrow>
     map (effects \<circ> snd) (AList.map_entry k f xs) = map (effects \<circ> snd) xs"
  by (induction xs) auto

lemma play_sound_effects:
  "map (effects \<circ> snd) (sounds (play_sound n s)) = map (effects \<circ> snd) (sounds s)"
  by (simp add: play_sound_def show_dialog_def modify_sound_def map_entry_effects Let_def
      split: option.split sum.split)

lemma stop_sound_effects:
  "map (effects \<circ> snd) (sounds (stop_sound n s)) = map (effects \<circ> snd) (sounds s)"
  by (simp add: stop_sound_def modify_sound_def map_entry_effects Let_def split: option.split)

lemma store_ok_play_sound: "store_ok s \<Longrightarrow> store_ok (play_sound n s)"
  by (simp add: store_ok_alt play_sound_effects play_sound_store del: set_map)

lemma store_ok_stop_sound: "store_ok s \<Longrightarrow> store_ok (stop_sound n s)"
  by (simp add: store_ok_alt stop_sound_effects stop_sound_store del: set_map)

lemma store_ok_toggle_sound: "store_ok s \<Longrightarrow> toggle_sound n s = Inr s' \<Longrightarrow> store_ok s'"
  by (auto simp: toggle_sound_def store_ok_play_sound store_ok_stop_sound
      split: option.splits if_splits)

lemma store_ok_modify_sound:
  "(\<And>x. effects (f x) = effects x) \<Longrightarrow> store_ok s \<Longrightarrow> store_ok (modify_sound n f s)"
  by (simp add: store_ok_alt modify_sound_def map_entry_effects del: set_map)

lemma store_ok_channels: "store_ok (s\<lparr>channels := c\<rparr>) = store_ok s"
  by (simp add: store_ok_def)

lemma store_ok_on_volume_change:
  "store_ok s \<Longrightarrow> on_volume_change n v s = Inr s' \<Longrightarrow> store_ok s'"
  by (auto simp: on_volume_change_def store_ok_modify_sound store_ok_channels Let_def
      split: option.splits)

lemma store_ok_update_effect:
  "store_ok s \<Longrightarrow> update_effect n e x s = Inr s' \<Longrightarrow> store_ok s'"
proof -
  assume ok: "store_ok s" and u: "update_effect n e x s = Inr s'"
  from u obtain sound where snd: "map_of (sounds s) n = Some sound"
    by (auto simp: update_effect_def split: option.splits)
  let ?s1 = "s\<lparr>heap := (heap s)(effects sound := AList.update e x (heap s (effects sound)))\<rparr>"
  from ok have "store_ok ?s1"
    by (simp add: store_ok_def)
  with u snd show "store_ok s'"
    by (auto simp: update_effect_def Let_def store_ok_play_sound store_ok_stop_sound
        split: if_splits)
qed

lemma update_values: "v \<in> snd ` set (AList.update k x al) \<Longrightarrow> v = x \<or> v \<in> snd ` set al"
  by (induction al) (auto split: if_splits)

lemma store_ok_save_preset: "store_ok s \<Longrightarrow> store_ok (save_preset now s)"
proof (cases "preset_name_var s = []")
  case True
  assume "store_ok s"
  with True show ?thesis
    by (simp add: save_preset_def show_dialog_def store_ok_def)
next
  case False
  assume ok: "store_ok s"
  obtain es s1 where r: "snapshot (sounds s) s = (es, s1)" by (cases "snapshot (sounds s) s")
  let ?p = "\<lparr>name = preset_name_var s, settings = es, category = category_var s,
             tags = parse_tags (tags_var s), created_at = now\<rparr>"
  let ?t = "save_preset now s"
  from ok have live: "\<forall>sound \<in> snd ` set (sounds s). effects sound < next_addr s"
    by (simp add: store_ok_def)
  note sv = snapshot_value [OF r live]
  note fr = snapshot_frame [OF r]
  from False r have t: "presets ?t = AList.update (preset_name_var s) ?p (presets s1)"
    "next_addr ?t = next_addr s1" "sounds ?t = sounds s1"
    by (simp_all add: save_preset_def Let_def show_dialog_def update_preset_list_def
        save_presets_to_file_def)
  have "\<forall>sound \<in> snd ` set (sounds ?t). effects sound < next_addr ?t"
    using live sv fr by (auto simp: t)
  moreover have "\<forall>st \<in> snd ` set (settings q). setting_effects st < next_addr ?t"
    if "q \<in> snd ` set (presets ?t)" for q
  proof -
    from that have "q = ?p \<or> q \<in> snd ` set (presets s)"
      using update_values [of q "preset_name_var s" ?p "presets s1"] fr by (simp add: t)
    then show ?thesis
    proof
      assume "q = ?p"
      with sv show ?thesis by (auto simp: t)
    next
      assume "q \<in> snd ` set (presets s)"
      with ok have "\<forall>st \<in> snd ` set (settings q). setting_effects st < next_addr s"
        by (auto simp: store_ok_def)
      with sv show ?thesis by (auto simp: t)
    qed
  qed
  ultimately show ?thesis
    by (simp add: store_ok_def)
qed

lemma store_ok_apply_settings: "store_ok s \<Longrightarrow> store_ok (apply_settings e s)"
proof -
  assume ok: "store_ok s"
  obtain m st where e: "e = (m, st)" by (cases e)
  show ?thesis
  proof (cases "map_of (sounds s) m")
    case None
    with ok show ?thesis by (simp add: e apply_settings_ignored)
  next
    case (Some sound)
    let ?s1 = "s\<lparr>heap := (heap s)(next_addr s := heap s (setting_effects st)),
                 next_addr := Suc (next_addr s)\<rparr>"
    let ?s2 = "modify_sound m (\<lambda>x. x\<lparr>volume := setting_volume st, effects := next_addr s\<rparr>) ?s1"
    have "v \<in> snd ` set (AList.map_entry m f xs) \<Longrightarrow>
            v \<in> snd ` set xs \<or> v \<in> f ` snd ` set xs" for v f and xs :: "(string \<times> sound) list"
      by (induction xs) (auto split: if_splits)
    then have "\<forall>x \<in> snd ` set (sounds ?s2). effects x < Suc (next_addr s)"
      using ok by (fastforce simp: modify_sound_def store_ok_def less_Suc_eq)
    moreover have "\<forall>p \<in> snd ` set (presets ?s2). \<forall>st \<in> snd ` set (settings p).
                      setting_effects st < Suc (next_addr s)"
      using ok by (fastforce simp: modify_sound_fields store_ok_def less_Suc_eq)
    ultimately have "store_ok ?s2"
      by (simp add: store_ok_def modify_sound_fields)
    moreover have "apply_settings e s =
        (if setting_is_playing st then play_sound m ?s2 else stop_sound m ?s2)"
      using Some by (simp add: e apply_settings_def dict_copy_def Let_def)
    ultimately show ?thesis
      by (simp add: store_ok_play_sound store_ok_stop_sound)
  qed
qed

lemma store_ok_load_preset: "store_ok s \<Longrightarrow> store_ok (load_preset s)"
proof -
  have "store_ok t \<Longrightarrow> store_ok (fold apply_settings es t)" for es t
    by (induction es arbitrary: t) (simp_all add: store_ok_apply_settings)
  moreover assume "store_ok s"
  ultimately show ?thesis
    by (simp add: load_preset_def Let_def split: option.split)
qed

lemma load_sounds_store:
  "next_addr (load_sounds s) = next_addr s"
proof -
  have "next_addr (fold load_sound es t) = next_addr t" for es t
  proof (induction es arbitrary: t)
    case Nil
    show ?case by simp
  next
    case (Cons e es)
    have "next_addr (load_sound e t) = next_addr t"
      by (cases e) (simp add: load_sound_def show_dialog_def split: audio_file.split)
    with Cons.IH [of "load_sound e t"] show ?case by simp
  qed
  then show ?thesis by (simp add: load_sounds_def)
qed

lemma load_items_allocated:
  "load_items items s = Inr (ps, s') \<Longrightarrow>
     next_addr s \<le> next_addr s'
     \<and> (\<forall>p \<in> snd ` set ps. \<forall>st \<in> snd ` set (settings p). setting_effects st < next_addr s')"
proof (induction items arbitrary: s ps s')
  case Nil
  then show ?case by simp
next
  case (Cons x xs)
  obtain n j where x: "x = (n, j)" by (cases x)
  from Cons.prems x obtain p where p: "Preset j = Inr p"
    by (cases "Preset j") auto
  obtain p' s1 where sp: "store_preset p s = (p', s1)" by (cases "store_preset p s")
  from Cons.prems x p sp obtain qs where r: "load_items xs s1 = Inr (qs, s')"
    and ps: "ps = (n, p') # qs"
    by (cases "load_items xs s1") auto
  note sv = store_preset_value [OF sp]
  from Cons.IH [OF r] sv(1) sv(4) show ?case
    unfolding ps by (auto intro: less_le_trans)
qed

lemma load_presets_allocated:
  "load_presets s = Inr (ps, s') \<Longrightarrow>
     next_addr s \<le> next_addr s'
     \<and> (\<forall>p \<in> snd ` set ps. \<forall>st \<in> snd ` set (settings p). setting_effects st < next_addr s')"
  by (cases "presets_file s")
    (auto simp: load_presets_by_file make_presets_def split: json.splits
      dest: load_items_allocated)

lemma initialize_sounds_allocated:
  "initialize_sounds s = (registry, s') \<Longrightarrow>
     \<forall>sound \<in> snd ` set registry. effects sound < next_addr s'"
  by (auto simp: initialize_sounds_def new_Sound_def dict_new_def)

lemma init_mixer_store_ok:
  assumes "init_mixer k files doc = Inr s"
  shows "store_ok s"
proof -
  let ?s0 = "\<lparr>sounds = [], presets = [], heap = (\<lambda>_. []), next_addr = 0,
                channels = replicate k \<lparr>playing = None, chan_volume = Finite 1\<rparr>,
                sound_files = files, presets_file = doc, dialogs = [], error_log = [],
                preset_name_var = [], category_var = [], tags_var = [], preset_var = [],
                preset_combo = []\<rparr>"
  obtain registry s1 where i: "initialize_sounds ?s0 = (registry, s1)"
    by (cases "initialize_sounds ?s0")
  let ?s2 = "load_sounds (s1\<lparr>sounds := registry\<rparr>)"
  from assms i obtain ps s3 where l: "load_presets ?s2 = Inr (ps, s3)"
    and s: "s = setup_ui (s3\<lparr>presets := ps\<rparr>)"
    by (cases "load_presets ?s2") (auto simp: init_mixer_def)
  from load_presets_frame [OF l] have snd3: "sounds s3 = registry"
    by (simp add: load_sounds_sounds)
  from load_presets_allocated [OF l] have nx: "next_addr s1 \<le> next_addr s3"
    and pa: "\<forall>p \<in> snd ` set ps. \<forall>st \<in> snd ` set (settings p). setting_effects st < next_addr s3"
    by (simp_all add: load_sounds_store)
  from initialize_sounds_allocated [OF i] nx
  have "\<forall>sound \<in> snd ` set registry. effects sound < next_addr s3"
    by (auto intro: less_le_trans)
  with pa show ?thesis
    unfolding s by (auto simp: store_ok_def setup_ui_def snd3)
qed

end
